theory Spec2Isabelle
  imports Main "HOL-Library.Word" "HOL-Library.Sublist" "HOL-Library.AList" "HOL-Library.Multiset"
begin

unbundle bit_operations_syntax

section \<open>Bytes, paths, files and exceptions\<close>

text \<open>
  The installer works on the Windows file system. A string is a Python \<^verbatim>\<open>str\<close> whose
  code points are below 256, and the character with code \<open>n\<close> is the code point \<open>n\<close>;
  strings with other code points are outside this type. A file is its byte content
  together with the two attributes that decide whether \<^verbatim>\<open>open(path, 'rb')\<close> and
  \<^verbatim>\<open>open(path, 'r+b')\<close> succeed; a file that is not writable is read-only. A file
  path is a directory path and a file name (\<^verbatim>\<open>Path.name\<close>). The file system lists
  the existing directories and maps file paths to files, as an association list so that
  directory listings can be enumerated.
\<close>

type_synonym byte = "8 word"
type_synonym path = string
type_synonym file_path = "path \<times> string"

record file_node =
  content :: "byte list"
  readable :: bool
  writable :: bool

record filesystem =
  dirs :: "path list"
  files :: "(file_path \<times> file_node) list"

datatype exn =
    FileNotFoundError
  | FileExistsError
  | PermissionError
  | OSError
  | StructError
  | InterruptedError
  | TimeoutExpired
  | UnboundLocalError
  | TooManyCopyFailures nat nat

text \<open>\<^verbatim>\<open>os.path.join(a, b)\<close> on Windows, for a relative \<open>b\<close>.\<close>

definition os_path_join :: "path \<Rightarrow> string \<Rightarrow> path" where
  "os_path_join a b = a @ [CHR 0x5C] @ b"

text \<open>
  \<^verbatim>\<open>Path.is_dir()\<close>, and \<^verbatim>\<open>Path.exists()\<close> or \<^verbatim>\<open>os.path.exists\<close> on a path
  string: the path of a directory, or the path of a file, which is its directory joined
  with its name.
\<close>

definition is_dir :: "filesystem \<Rightarrow> path \<Rightarrow> bool" where
  "is_dir fs p = (p \<in> set (dirs fs))"

definition path_exists :: "filesystem \<Rightarrow> path \<Rightarrow> bool" where
  "path_exists fs p =
     (is_dir fs p \<or> list_ex (\<lambda>q. os_path_join (fst q) (snd q) = p) (map fst (files fs)))"

definition lookup_file :: "filesystem \<Rightarrow> file_path \<Rightarrow> file_node option" where
  "lookup_file fs p = map_of (files fs) p"

definition store_file :: "filesystem \<Rightarrow> file_path \<Rightarrow> file_node \<Rightarrow> filesystem" where
  "store_file fs p f = fs\<lparr>files := AList.update p f (files fs)\<rparr>"

definition remove_file :: "filesystem \<Rightarrow> file_path \<Rightarrow> filesystem" where
  "remove_file fs p = fs\<lparr>files := AList.delete p (files fs)\<rparr>"

text \<open>\<^verbatim>\<open>open(file_path, 'rb')\<close> followed by reading: the whole content, or the exception.\<close>

definition open_rb :: "filesystem \<Rightarrow> file_path \<Rightarrow> exn + byte list" where
  "open_rb fs p =
     (case lookup_file fs p of
        None \<Rightarrow> Inl FileNotFoundError
      | Some f \<Rightarrow> if readable f then Inr (content f) else Inl PermissionError)"

text \<open>\<^verbatim>\<open>open(file_path, 'r+b')\<close>: the file must exist, be readable and not be read-only.\<close>

definition open_rw :: "filesystem \<Rightarrow> file_path \<Rightarrow> exn + file_node" where
  "open_rw fs p =
     (case lookup_file fs p of
        None \<Rightarrow> Inl FileNotFoundError
      | Some f \<Rightarrow> if readable f \<and> writable f then Inr f else Inl PermissionError)"

text \<open>Python's slice \<^verbatim>\<open>xs[i:j]\<close> for \<open>0 \<le> i \<le> j\<close>.\<close>

definition slice :: "nat \<Rightarrow> nat \<Rightarrow> 'a list \<Rightarrow> 'a list" where
  "slice i j xs = take (j - i) (drop i xs)"

text \<open>
  \<^verbatim>\<open>struct.unpack('<I', b)[0]\<close> and \<^verbatim>\<open>struct.pack('<I', v)\<close>: an unsigned
  32-bit integer, least significant byte first. Unpacking anything but four bytes raises
  \<^verbatim>\<open>struct.error\<close>.
\<close>

fun unpack_u32_le :: "byte list \<Rightarrow> 32 word option" where
  "unpack_u32_le [b0, b1, b2, b3] =
     Some (ucast b0 OR push_bit 8 (ucast b1) OR push_bit 16 (ucast b2) OR push_bit 24 (ucast b3))"
| "unpack_u32_le _ = None"

definition pack_u32_le :: "32 word \<Rightarrow> byte list" where
  "pack_u32_le w = [ucast w, ucast (drop_bit 8 w), ucast (drop_bit 16 w), ucast (drop_bit 24 w)]"

text \<open>
  \<^verbatim>\<open>f.seek(off); f.write(data)\<close> on a file opened \<^verbatim>\<open>'r+b'\<close>: the bytes at
  \<open>off ..< off + length data\<close> are overwritten; a write that starts or ends beyond the end
  of the file extends it (the gap is filled with zero bytes).
\<close>

definition write_at :: "nat \<Rightarrow> byte list \<Rightarrow> byte list \<Rightarrow> byte list" where
  "write_at off data c =
     take off c @ replicate (off - length c) 0 @ data @ drop (off + length data) c"

text \<open>
  \<^verbatim>\<open>str.lower()\<close>. Among the code points below 256 the upper-case letters are
  \<^verbatim>\<open>A\<close> to \<^verbatim>\<open>Z\<close> (65 to 90) and the Latin-1 letters 192 to 222 without the
  multiplication sign 215; each has its lower-case letter 32 places further on, and no
  other code point below 256 is changed. No letter in this range depends on its
  neighbours, so the string is mapped character by character.
\<close>

definition is_upper_code :: "nat \<Rightarrow> bool" where
  "is_upper_code n = ((65 \<le> n \<and> n \<le> 90) \<or> (192 \<le> n \<and> n \<le> 222 \<and> n \<noteq> 215))"

definition lower_char :: "char \<Rightarrow> char" where
  "lower_char c =
     (if is_upper_code (of_char c) then char_of (of_char c + 32 :: nat) else c)"

definition lower :: "string \<Rightarrow> string" where
  "lower s = map lower_char s"

section \<open>BA2 archive header\<close>

text \<open>\<^verbatim>\<open>class ArchiveVersionEnum(IntEnum)\<close>\<close>

definition FALLOUT_4 :: "32 word" where "FALLOUT_4 = 1"
definition FALLOUT_4_NG2 :: "32 word" where "FALLOUT_4_NG2 = 7"
definition FALLOUT_4_NG :: "32 word" where "FALLOUT_4_NG = 8"

record BA2Header =
  magic :: "byte list"
  version :: "32 word"
  format :: "byte list"
  file_count :: "32 word"

text \<open>\<^verbatim>\<open>b'BTDX'\<close>\<close>

definition BTDX :: "byte list" where
  "BTDX = [66, 84, 68, 88]"

text \<open>
  The body of the \<^verbatim>\<open>try\<close> block of \<^verbatim>\<open>BA2Header.from_file\<close>: the exceptions of
  \<^verbatim>\<open>open\<close> and of \<^verbatim>\<open>struct.unpack\<close> are the \<open>Inl\<close> results. Both fields are
  unpacked before the magic signature is compared, as in the source.
\<close>

definition from_file_body :: "filesystem \<Rightarrow> file_path \<Rightarrow> exn + BA2Header option" where
  "from_file_body fs file_path =
     (case open_rb fs file_path of
        Inl e \<Rightarrow> Inl e
      | Inr data \<Rightarrow>
          (let header_data = take 16 data in
           if length header_data < 16 then Inr None
           else
             (case unpack_u32_le (slice 4 8 header_data) of
                None \<Rightarrow> Inl StructError
              | Some v \<Rightarrow>
                  (case unpack_u32_le (slice 12 16 header_data) of
                     None \<Rightarrow> Inl StructError
                   | Some n \<Rightarrow>
                       if slice 0 4 header_data \<noteq> BTDX then Inr None
                       else Inr (Some \<lparr>magic = slice 0 4 header_data, version = v,
                                        format = slice 8 12 header_data, file_count = n\<rparr>)))))"

text \<open>
  \<^verbatim>\<open>BA2Header.from_file\<close>: the \<^verbatim>\<open>except Exception\<close> clause turns every exception of
  the body into the result \<^verbatim>\<open>None\<close>, so the function has no exceptional result.
\<close>

definition from_file :: "filesystem \<Rightarrow> file_path \<Rightarrow> BA2Header option" where
  "from_file fs file_path =
     (case from_file_body fs file_path of Inl e \<Rightarrow> None | Inr r \<Rightarrow> r)"

section \<open>Version normalizer\<close>

record FalloutVRDowngrader =
  data_path :: path


text \<open>
  \<^verbatim>\<open>header and header.version in [FALLOUT_4_NG, FALLOUT_4_NG2]\<close>: a header object is
  always truthy, so the test is on \<^verbatim>\<open>None\<close> and the version.
\<close>

definition is_next_gen_header :: "BA2Header option \<Rightarrow> bool" where
  "is_next_gen_header h =
     (case h of None \<Rightarrow> False
      | Some header \<Rightarrow> version header \<in> set [FALLOUT_4_NG, FALLOUT_4_NG2])"

text \<open>
  \<^verbatim>\<open>list(self.data_path.glob("*.ba2"))\<close>: the entries of the directory itself whose name
  matches the pattern; pathlib matches case-insensitively on Windows.
\<close>

definition glob_ba2 :: "filesystem \<Rightarrow> path \<Rightarrow> file_path list" where
  "glob_ba2 fs d = filter (\<lambda>p. fst p = d \<and> suffix ''.ba2'' (lower (snd p))) (map fst (files fs))"

definition dlc_groups :: "(string \<times> string list) list" where
  "dlc_groups =
     [(''Automatron DLC'', [''DLCRobot'']),
      (''Far Harbor DLC'', [''DLCCoast'']),
      (''Nuka-World DLC'', [''DLCNukaWorld'']),
      (''Wasteland Workshop DLC'', [''DLCworkshop''])]"

text \<open>
  \<^verbatim>\<open>find_dlc_ba2_status\<close>: one iteration of the loop over \<^verbatim>\<open>dlc_groups\<close> gives the
  entry of the group, or none when the group has no file. The dictionaries are association
  lists in insertion order.
\<close>

definition dlc_status_entry ::
  "filesystem \<Rightarrow> file_path list \<Rightarrow> string \<times> string list \<Rightarrow> (string \<times> file_path list \<times> string) list"
where
  "dlc_status_entry fs ba2_files g =
     (let dlc_files = filter (\<lambda>ba2_file. list_ex (\<lambda>pre. prefix pre (snd ba2_file)) (snd g)) ba2_files;
          needs_downgrade = list_ex (\<lambda>ba2_file. is_next_gen_header (from_file fs ba2_file)) dlc_files
      in if dlc_files \<noteq> []
         then [(fst g, dlc_files, if needs_downgrade then ''Needs Downgrade'' else ''London Ready'')]
         else [])"

definition find_dlc_ba2_status ::
  "FalloutVRDowngrader \<Rightarrow> filesystem \<Rightarrow> (string \<times> file_path list \<times> string) list" where
  "find_dlc_ba2_status self fs =
     concat (map (dlc_status_entry fs (glob_ba2 fs (data_path self))) dlc_groups)"

text \<open>\<^verbatim>\<open>get_dlc_needing_downgrade\<close>\<close>

definition needing_entry ::
  "filesystem \<Rightarrow> string \<times> file_path list \<times> string \<Rightarrow> (string \<times> file_path list) list" where
  "needing_entry fs e =
     (case e of (dlc_name, fls, status) \<Rightarrow>
        if status = ''Needs Downgrade''
        then (let next_gen_files = filter (\<lambda>file_path. is_next_gen_header (from_file fs file_path)) fls
              in if next_gen_files \<noteq> [] then [(dlc_name, next_gen_files)] else [])
        else [])"

definition get_dlc_needing_downgrade ::
  "FalloutVRDowngrader \<Rightarrow> filesystem \<Rightarrow> (string \<times> file_path list) list" where
  "get_dlc_needing_downgrade self fs = concat (map (needing_entry fs) (find_dlc_ba2_status self fs))"

text \<open>
  The \<^verbatim>\<open>with open(file_path, 'r+b')\<close> block of \<^verbatim>\<open>downgrade_ba2_file\<close>: seek to
  offset 4 and write the packed version code. The source writes the constant
  \<^verbatim>\<open>ArchiveVersionEnum.FALLOUT_4\<close>; the code is a parameter here.
\<close>

definition write_version_code :: "filesystem \<Rightarrow> file_path \<Rightarrow> 32 word \<Rightarrow> exn + filesystem" where
  "write_version_code fs file_path code =
     (case open_rw fs file_path of
        Inl e \<Rightarrow> Inl e
      | Inr f \<Rightarrow> Inr (store_file fs file_path (f\<lparr>content := write_at 4 (pack_u32_le code) (content f)\<rparr>)))"

text \<open>
  \<^verbatim>\<open>downgrade_ba2_file\<close>: the result and the file system afterwards. An exception of the
  write is caught by \<^verbatim>\<open>except Exception\<close> and gives \<^verbatim>\<open>False\<close>.
\<close>

definition downgrade_ba2_file :: "filesystem \<Rightarrow> file_path \<Rightarrow> bool \<times> filesystem" where
  "downgrade_ba2_file fs file_path =
     (case from_file fs file_path of
        None \<Rightarrow> (False, fs)
      | Some header \<Rightarrow>
          if version header = FALLOUT_4 then (True, fs)
          else if version header \<notin> set [FALLOUT_4_NG, FALLOUT_4_NG2] then (False, fs)
          else (case write_version_code fs file_path FALLOUT_4 of
                  Inl e \<Rightarrow> (False, fs)
                | Inr fs' \<Rightarrow> (True, fs')))"

text \<open>
  The inner loop of \<^verbatim>\<open>downgrade_dlc_ba2_files\<close> over the files of one group: the number
  of successes, \<^verbatim>\<open>downgraded_files\<close> in processing order, and the file system.
\<close>

fun downgrade_files :: "filesystem \<Rightarrow> file_path list \<Rightarrow> nat \<times> file_path list \<times> filesystem" where
  "downgrade_files fs [] = (0, [], fs)"
| "downgrade_files fs (file_path # rest) =
     (case downgrade_ba2_file fs file_path of
        (ok, fs') \<Rightarrow>
          (case downgrade_files fs' rest of
             (n, downgraded_files, fs'') \<Rightarrow>
               if ok then (Suc n, file_path # downgraded_files, fs'')
               else (n, downgraded_files, fs'')))"

text \<open>The outer loop over the groups: \<^verbatim>\<open>success_count\<close>, \<^verbatim>\<open>downgraded_by_dlc\<close>.\<close>

fun downgrade_groups ::
  "filesystem \<Rightarrow> (string \<times> file_path list) list \<Rightarrow> (nat \<times> (string \<times> file_path list) list) \<times> filesystem"
where
  "downgrade_groups fs [] = ((0, []), fs)"
| "downgrade_groups fs ((dlc_name, fls) # rest) =
     (case downgrade_files fs fls of
        (n, downgraded_files, fs') \<Rightarrow>
          (case downgrade_groups fs' rest of
             ((m, downgraded_by_dlc), fs'') \<Rightarrow>
               ((n + m,
                 if downgraded_files \<noteq> [] then (dlc_name, downgraded_files) # downgraded_by_dlc
                 else downgraded_by_dlc), fs'')))"

text \<open>
  \<^verbatim>\<open>downgrade_dlc_ba2_files\<close>. The progress callback only receives the percentage of
  processed files and is not part of the result.
\<close>

definition downgrade_dlc_ba2_files ::
  "FalloutVRDowngrader \<Rightarrow> filesystem \<Rightarrow> (nat \<times> (string \<times> file_path list) list) \<times> filesystem" where
  "downgrade_dlc_ba2_files self fs =
     (let dlc_needing_downgrade = get_dlc_needing_downgrade self fs
      in if dlc_needing_downgrade = [] then ((0, []), fs)
         else downgrade_groups fs dlc_needing_downgrade)"


section \<open>DLC resolver\<close>

text \<open>
  One value of the \<^verbatim>\<open>dlc_info\<close> dictionary of \<^verbatim>\<open>detect_dlc_in_both_games\<close>. The
  fields that start as \<^verbatim>\<open>None\<close> are options.
\<close>

record dlc_data =
  esm :: string
  ba2_prefixes :: "string list"
  found_in :: "string option"
  esm_path :: "file_path option"
  ba2_paths :: "file_path list"
  is_next_gen :: "bool option"

definition new_dlc :: "string \<Rightarrow> string list \<Rightarrow> dlc_data" where
  "new_dlc e ps = \<lparr>esm = e, ba2_prefixes = ps, found_in = None, esm_path = None,
                    ba2_paths = [], is_next_gen = None\<rparr>"

definition initial_dlc_info :: "(string \<times> dlc_data) list" where
  "initial_dlc_info =
     [(''Automatron'', new_dlc ''DLCRobot.esm'' [''DLCRobot'']),
      (''Wasteland Workshop'', new_dlc ''DLCworkshop01.esm'' [''DLCworkshop01'']),
      (''Far Harbor'', new_dlc ''DLCCoast.esm'' [''DLCCoast'']),
      (''Contraptions Workshop'', new_dlc ''DLCworkshop02.esm'' [''DLCworkshop02'']),
      (''Vault-Tec Workshop'', new_dlc ''DLCworkshop03.esm'' [''DLCworkshop03'']),
      (''Nuka-World'', new_dlc ''DLCNukaWorld.esm'' [''DLCNukaWorld''])]"

text \<open>\<^verbatim>\<open>[f for f in directory.iterdir() if f.is_file()]\<close>\<close>

definition iterdir_files :: "filesystem \<Rightarrow> path \<Rightarrow> file_path list" where
  "iterdir_files fs directory = filter (\<lambda>p. fst p = directory) (map fst (files fs))"

text \<open>\<^verbatim>\<open>s.split(sep)[0]\<close> for a non-empty separator: the text before its first occurrence.\<close>

fun split_first :: "string \<Rightarrow> string \<Rightarrow> string" where
  "split_first sep [] = []"
| "split_first sep (c # cs) = (if prefix sep (c # cs) then [] else c # split_first sep cs)"

text \<open>
  \<^verbatim>\<open>file_name.split(' - ')[0] if ' - ' in file_name else file_name.split('.')[0]\<close>
\<close>

definition ba2_prefix_of :: "string \<Rightarrow> string" where
  "ba2_prefix_of file_name =
     (if sublist '' - '' file_name then split_first '' - '' file_name
      else split_first ''.'' file_name)"

text \<open>
  The two lookup dictionaries built from the listing. A name ending in \<^verbatim>\<open>.esm\<close> goes
  to \<^verbatim>\<open>esm_map\<close> (a later entry of the same name overwrites an earlier one), a name
  ending in \<^verbatim>\<open>.ba2\<close> is appended to the list of its prefix in \<^verbatim>\<open>ba2_map\<close>.
\<close>

definition esm_map :: "file_path list \<Rightarrow> string \<Rightarrow> file_path option" where
  "esm_map fls =
     map_of (rev (map (\<lambda>p. (snd p, p)) (filter (\<lambda>p. suffix ''.esm'' (lower (snd p))) fls)))"

definition ba2_map :: "file_path list \<Rightarrow> string \<Rightarrow> file_path list" where
  "ba2_map fls pre =
     filter (\<lambda>p. \<not> suffix ''.esm'' (lower (snd p)) \<and> suffix ''.ba2'' (lower (snd p))
                 \<and> ba2_prefix_of (snd p) = pre) fls"

text \<open>
  The loop over \<^verbatim>\<open>dlc_data["ba2_prefixes"]\<close>: the archives of the group in this
  directory, and whether one of them has a Next-Gen header.
\<close>

definition candidate_ba2_paths :: "file_path list \<Rightarrow> dlc_data \<Rightarrow> file_path list" where
  "candidate_ba2_paths fls d = concat (map (ba2_map fls) (ba2_prefixes d))"

definition candidate_is_ng :: "filesystem \<Rightarrow> file_path list \<Rightarrow> dlc_data \<Rightarrow> bool" where
  "candidate_is_ng fs fls d =
     list_ex (\<lambda>ba2_path. is_next_gen_header (from_file fs ba2_path)) (candidate_ba2_paths fls d)"

text \<open>The body of the loop over \<^verbatim>\<open>dlc_info.items()\<close> for one group.\<close>

definition scan_dlc_entry :: "filesystem \<Rightarrow> file_path list \<Rightarrow> string \<Rightarrow> dlc_data \<Rightarrow> dlc_data" where
  "scan_dlc_entry fs fls source_name d =
     (case esm_map fls (esm d) of
        None \<Rightarrow> d
      | Some esm_p \<Rightarrow>
          (let is_ng = candidate_is_ng fs fls d;
               ba2_ps = candidate_ba2_paths fls d
           in if found_in d = None \<or> (\<not> is_ng \<and> is_next_gen d = Some True)
              then d\<lparr>found_in := Some source_name, esm_path := Some esm_p,
                     ba2_paths := ba2_ps, is_next_gen := Some is_ng\<rparr>
              else d))"

text \<open>
  \<^verbatim>\<open>_scan_single_directory_for_dlc\<close>. Listing a path that is not a directory raises
  before any group is touched, and the \<^verbatim>\<open>except\<close> clause only logs: the dictionary is
  unchanged.
\<close>

definition scan_single_directory_for_dlc ::
  "filesystem \<Rightarrow> path \<Rightarrow> (string \<times> dlc_data) list \<Rightarrow> string \<Rightarrow> (string \<times> dlc_data) list" where
  "scan_single_directory_for_dlc fs directory dlc_info source_name =
     (if \<not> is_dir fs directory then dlc_info
      else map (\<lambda>(dlc_name, d). (dlc_name, scan_dlc_entry fs (iterdir_files fs directory) source_name d))
             dlc_info)"

text \<open>\<^verbatim>\<open>Path(p) / "Data"\<close> on Windows.\<close>

definition data_subdir :: "path \<Rightarrow> path" where
  "data_subdir p = os_path_join p ''Data''"

text \<open>
  \<^verbatim>\<open>detect_dlc_in_both_games\<close>; the three path settings of the installer are
  arguments.
\<close>

definition detect_dlc_in_both_games ::
  "filesystem \<Rightarrow> path \<Rightarrow> path \<Rightarrow> path \<Rightarrow> (string \<times> dlc_data) list" where
  "detect_dlc_in_both_games fs f4_path f4vr_path london_data_path =
     (let i0 = initial_dlc_info;
          i1 = (if path_exists fs f4_path
                then (let a = scan_single_directory_for_dlc fs f4_path i0 ''Fallout 4 DLC''
                      in if path_exists fs (data_subdir f4_path)
                         then scan_single_directory_for_dlc fs (data_subdir f4_path) a ''Fallout 4 DLC''
                         else a)
                else i0);
          i2 = (if f4vr_path \<noteq> [] \<and> path_exists fs (data_subdir f4vr_path)
                then scan_single_directory_for_dlc fs (data_subdir f4vr_path) i1 ''Fallout 4 VR''
                else i1);
          i3 = (if london_data_path \<noteq> []
                   \<and> london_data_path \<notin> set [[], ''Waiting for Fallout 4 path'', ''Already installed'']
                   \<and> path_exists fs london_data_path
                then (let a = scan_single_directory_for_dlc fs london_data_path i2 ''Fallout London''
                      in if path_exists fs (data_subdir london_data_path)
                         then scan_single_directory_for_dlc fs (data_subdir london_data_path) a ''Fallout London''
                         else a)
                else i2)
      in i3)"

section \<open>ESM delta patcher\<close>

text \<open>
  A statement sequence either returns a value or raises; both leave a file system behind.
\<close>

datatype 'a result = Raise exn filesystem | Return 'a filesystem

definition and_then :: "unit result \<Rightarrow> (filesystem \<Rightarrow> 'b result) \<Rightarrow> 'b result" where
  "and_then r k = (case r of Raise e fs \<Rightarrow> Raise e fs | Return u fs \<Rightarrow> k fs)"

text \<open>
  \<^verbatim>\<open>os.path.exists\<close>, \<^verbatim>\<open>os.remove\<close> and \<^verbatim>\<open>os.rename\<close> on Windows. The
  predicate \<open>locked\<close> says which files another process holds open. Removing a file
  that is read-only or locked raises \<^verbatim>\<open>PermissionError\<close>; renaming does not replace
  an existing destination, and a locked file cannot be renamed.
\<close>

definition os_exists :: "filesystem \<Rightarrow> file_path \<Rightarrow> bool" where
  "os_exists fs p = (lookup_file fs p \<noteq> None)"

definition os_remove :: "(file_path \<Rightarrow> bool) \<Rightarrow> filesystem \<Rightarrow> file_path \<Rightarrow> unit result" where
  "os_remove locked fs p =
     (case lookup_file fs p of
        None \<Rightarrow> Raise FileNotFoundError fs
      | Some f \<Rightarrow>
          if locked p \<or> \<not> writable f then Raise PermissionError fs
          else Return () (remove_file fs p))"

definition os_rename ::
  "(file_path \<Rightarrow> bool) \<Rightarrow> filesystem \<Rightarrow> file_path \<Rightarrow> file_path \<Rightarrow> unit result" where
  "os_rename locked fs src dst =
     (case lookup_file fs src of
        None \<Rightarrow> Raise FileNotFoundError fs
      | Some f \<Rightarrow>
          if os_exists fs dst then Raise FileExistsError fs
          else if locked src then Raise PermissionError fs
          else Return () (store_file (remove_file fs src) dst f))"

text \<open>
  What the environment does to \<^verbatim>\<open>shutil.copy2\<close>: it completes, or it raises before
  the destination is created, or it raises after the first \<open>n\<close> bytes of the destination
  have been written (a full disk); \<^verbatim>\<open>shutil\<close> leaves the incomplete file in place.
\<close>

datatype copy2_outcome = CopyOk | CopyFailsBeforeCreate exn | CopyFailsAfter nat exn

definition shutil_copy2 :: "copy2_outcome \<Rightarrow> filesystem \<Rightarrow> file_path \<Rightarrow> file_path \<Rightarrow> unit result" where
  "shutil_copy2 oc fs src dst =
     (case lookup_file fs src of
        None \<Rightarrow> Raise FileNotFoundError fs
      | Some f \<Rightarrow>
          (case oc of
             CopyOk \<Rightarrow> Return () (store_file fs dst f)
           | CopyFailsBeforeCreate e \<Rightarrow> Raise e fs
           | CopyFailsAfter n e \<Rightarrow> Raise e (store_file fs dst (f\<lparr>content := take n (content f)\<rparr>))))"

text \<open>
  What \<^verbatim>\<open>subprocess.run(cmd, timeout=120)\<close> does: the tool exits with a return code,
  or the timeout expires, or the process cannot be started. In the first two cases the
  tool may have written the output file (\<^verbatim>\<open>-f\<close> overwrites); it does not change
  its source.
\<close>

datatype run_outcome = Exited int "byte list option" | TimedOut "byte list option" | RunRaises exn

definition write_output :: "filesystem \<Rightarrow> file_path \<Rightarrow> byte list option \<Rightarrow> filesystem" where
  "write_output fs p out =
     (case out of None \<Rightarrow> fs
      | Some c \<Rightarrow> store_file fs p \<lparr>content = c, readable = True, writable = True\<rparr>)"

definition subprocess_run :: "run_outcome \<Rightarrow> filesystem \<Rightarrow> file_path \<Rightarrow> int result" where
  "subprocess_run oc fs temp_output =
     (case oc of
        Exited rc out \<Rightarrow> Return rc (write_output fs temp_output out)
      | TimedOut out \<Rightarrow> Raise TimeoutExpired (write_output fs temp_output out)
      | RunRaises e \<Rightarrow> Raise e fs)"

record ESMPatcher =
  assets_dir :: path

definition xdelta_path :: "ESMPatcher \<Rightarrow> file_path" where
  "xdelta_path self = (assets_dir self, ''xdelta3.exe'')"

text \<open>\<^verbatim>\<open>self.patch_mappings\<close>: exact size in bytes to patch file and description.\<close>

definition patch_mappings :: "(nat \<times> string \<times> string) list" where
  "patch_mappings =
     [(330777465, ''fallout4_323025.xdelta'', ''323,025 KB variant''),
      (330553163, ''fallout4_322806.xdelta'', ''322,806 KB variant'')]"

text \<open>
  The restore block that every failure branch repeats:
  \<^verbatim>\<open>if exists(backup): (if exists(esm): remove(esm)); rename(backup, esm)\<close>, and the
  removal of the temporary output.
\<close>

definition restore_backup ::
  "(file_path \<Rightarrow> bool) \<Rightarrow> filesystem \<Rightarrow> file_path \<Rightarrow> file_path \<Rightarrow> unit result" where
  "restore_backup locked fs esm_p backup_path =
     (if os_exists fs backup_path
      then and_then (if os_exists fs esm_p then os_remove locked fs esm_p else Return () fs)
             (\<lambda>fs1. os_rename locked fs1 backup_path esm_p)
      else Return () fs)"

definition cleanup_temp :: "(file_path \<Rightarrow> bool) \<Rightarrow> filesystem \<Rightarrow> file_path \<Rightarrow> unit result" where
  "cleanup_temp locked fs temp_output =
     (if os_exists fs temp_output then os_remove locked fs temp_output else Return () fs)"

text \<open>The statements of the \<^verbatim>\<open>try\<close> block after \<^verbatim>\<open>subprocess.run\<close> has returned.\<close>

definition after_run ::
  "(file_path \<Rightarrow> bool) \<Rightarrow> int \<Rightarrow> filesystem \<Rightarrow> file_path \<Rightarrow> file_path \<Rightarrow> file_path \<Rightarrow> bool result" where
  "after_run locked returncode fs esm_p backup_path temp_output =
     (if returncode = 0 then
        (case lookup_file fs temp_output of
           Some t \<Rightarrow>
             (let patched_size = length (content t) in
              if patched_size > 300000000 then
                and_then (os_remove locked fs esm_p) (\<lambda>fs1.
                and_then (os_rename locked fs1 temp_output esm_p) (\<lambda>fs2.
                and_then (if os_exists fs2 backup_path then os_remove locked fs2 backup_path
                          else Return () fs2) (\<lambda>fs3.
                Return True fs3)))
              else
                and_then (restore_backup locked fs esm_p backup_path) (\<lambda>fs1.
                and_then (cleanup_temp locked fs1 temp_output) (\<lambda>fs2.
                Return False fs2)))
         | None \<Rightarrow>
             and_then (restore_backup locked fs esm_p backup_path) (\<lambda>fs1. Return False fs1))
      else
        and_then (restore_backup locked fs esm_p backup_path) (\<lambda>fs1.
        and_then (cleanup_temp locked fs1 temp_output) (\<lambda>fs2.
        Return False fs2)))"

text \<open>
  The \<^verbatim>\<open>try\<close> block. With the result comes whether the local variable
  \<^verbatim>\<open>temp_output\<close> had been assigned when the block was left: it is assigned after
  \<^verbatim>\<open>shutil.copy2\<close> has returned.
\<close>

definition patch_try_block ::
  "(file_path \<Rightarrow> bool) \<Rightarrow> copy2_outcome \<Rightarrow> run_outcome \<Rightarrow> filesystem \<Rightarrow> file_path \<Rightarrow> file_path \<Rightarrow> file_path
     \<Rightarrow> bool result \<times> bool" where
  "patch_try_block locked copy_oc run_oc fs esm_p backup_path temp_output =
     (case shutil_copy2 copy_oc fs esm_p backup_path of
        Raise e fs1 \<Rightarrow> (Raise e fs1, False)
      | Return u fs1 \<Rightarrow>
          (case subprocess_run run_oc fs1 temp_output of
             Raise e fs2 \<Rightarrow> (Raise e fs2, True)
           | Return returncode fs2 \<Rightarrow> (after_run locked returncode fs2 esm_p backup_path temp_output, True)))"

text \<open>\<^verbatim>\<open>except subprocess.TimeoutExpired\<close>\<close>

definition handle_timeout ::
  "(file_path \<Rightarrow> bool) \<Rightarrow> filesystem \<Rightarrow> file_path \<Rightarrow> file_path \<Rightarrow> file_path \<Rightarrow> bool result" where
  "handle_timeout locked fs esm_p backup_path temp_output =
     and_then (restore_backup locked fs esm_p backup_path) (\<lambda>fs1.
     and_then (cleanup_temp locked fs1 temp_output) (\<lambda>fs2.
     Return False fs2))"

text \<open>
  \<^verbatim>\<open>except Exception\<close>: the restore is wrapped in its own \<^verbatim>\<open>try\<close>, whose handler
  only logs. Reading \<^verbatim>\<open>temp_output\<close> afterwards raises \<^verbatim>\<open>UnboundLocalError\<close> when
  the variable was never assigned.
\<close>

definition handle_exception ::
  "(file_path \<Rightarrow> bool) \<Rightarrow> bool \<Rightarrow> filesystem \<Rightarrow> file_path \<Rightarrow> file_path \<Rightarrow> file_path \<Rightarrow> bool result" where
  "handle_exception locked temp_bound fs esm_p backup_path temp_output =
     (let fs1 = (case restore_backup locked fs esm_p backup_path of
                   Raise restore_error fs' \<Rightarrow> fs'
                 | Return u fs' \<Rightarrow> fs')
      in if \<not> temp_bound then Raise UnboundLocalError fs1
         else and_then (cleanup_temp locked fs1 temp_output) (\<lambda>fs2. Return False fs2))"

text \<open>
  \<^verbatim>\<open>ESMPatcher.patch_fallout4_esm\<close>. The environment is given by the locked files,
  the outcome of \<^verbatim>\<open>shutil.copy2\<close> and the outcome of the patch tool.
\<close>

definition patch_fallout4_esm ::
  "ESMPatcher \<Rightarrow> (file_path \<Rightarrow> bool) \<Rightarrow> copy2_outcome \<Rightarrow> run_outcome \<Rightarrow> filesystem \<Rightarrow> path \<Rightarrow> bool result" where
  "patch_fallout4_esm self locked copy_oc run_oc fs folon_data_dir =
     (let esm_p = (folon_data_dir, ''Fallout4.esm'') in
      case lookup_file fs esm_p of
        None \<Rightarrow> Return False fs
      | Some f \<Rightarrow>
          (case map_of patch_mappings (length (content f)) of
             None \<Rightarrow> Return False fs
           | Some selected_patch \<Rightarrow>
               if \<not> os_exists fs (assets_dir self, fst selected_patch) then Return False fs
               else if \<not> os_exists fs (xdelta_path self) then Return False fs
               else
                 (let backup_path = (folon_data_dir, ''Fallout4.esm'' @ ''.backup'');
                      temp_output = (folon_data_dir, ''Fallout4.esm'' @ ''.patched'')
                  in case patch_try_block locked copy_oc run_oc fs esm_p backup_path temp_output of
                       (Return b fs', bound) \<Rightarrow> Return b fs'
                     | (Raise e fs', bound) \<Rightarrow>
                         if e = TimeoutExpired
                         then handle_timeout locked fs' esm_p backup_path temp_output
                         else handle_exception locked bound fs' esm_p backup_path temp_output)))"

section \<open>Parallel tree copier\<close>

text \<open>
  What \<^verbatim>\<open>os.walk\<close> reports for a directory: its subdirectories with their own trees,
  and the names of its files. Sizes and contents are read from the file system.
\<close>

datatype dir_tree = Dir "(string \<times> dir_tree) list" "string list"

text \<open>An entry of \<^verbatim>\<open>files_to_copy\<close>: \<^verbatim>\<open>(src_file, dest_file, size)\<close>.\<close>

type_synonym file_info = "file_path \<times> file_path \<times> nat"

definition default_exclude_dirs :: "string list" where
  "default_exclude_dirs = [''F4SE'', ''source'', ''scripts'' @ [CHR 0x5C] @ ''source'']"

text \<open>\<^verbatim>\<open>os.path.getsize\<close>\<close>

definition os_getsize :: "filesystem \<Rightarrow> file_path \<Rightarrow> exn + nat" where
  "os_getsize fs p =
     (case lookup_file fs p of None \<Rightarrow> Inl FileNotFoundError | Some f \<Rightarrow> Inr (length (content f)))"

text \<open>\<^verbatim>\<open>any(excl.lower() in root.lower() for excl in exclude_dirs_lower)\<close>: a substring test
  on the whole path of the directory being visited.\<close>

definition in_excluded_directory :: "string list \<Rightarrow> path \<Rightarrow> bool" where
  "in_excluded_directory exclude_dirs_lower root =
     list_ex (\<lambda>excl. sublist (lower excl) (lower root)) exclude_dirs_lower"

text \<open>
  The loop over the files of one directory. The destination is
  \<^verbatim>\<open>os.path.join(dest_dir, os.path.relpath(src_file, src_dir))\<close>: the walk carries the
  destination directory that corresponds to \<^verbatim>\<open>root\<close>. A file whose size cannot be
  read is logged and left out.
\<close>

definition collect_files ::
  "string list \<Rightarrow> filesystem \<Rightarrow> path \<Rightarrow> path \<Rightarrow> string list \<Rightarrow> file_info list" where
  "collect_files exclude_files_lower fs root dest_root fnames =
     concat (map (\<lambda>file.
        if lower file \<in> set exclude_files_lower then []
        else (case os_getsize fs (root, file) of
                Inl e \<Rightarrow> []
              | Inr sz \<Rightarrow> [((root, file), (dest_root, file), sz)])) fnames)"

text \<open>
  The walk, top-down: excluded subdirectories are pruned before the directory itself is
  tested, so the walk still descends from a skipped directory into the subdirectories
  it kept.
\<close>

fun walk_tree ::
  "string list \<Rightarrow> string list \<Rightarrow> filesystem \<Rightarrow> path \<Rightarrow> path \<Rightarrow> dir_tree \<Rightarrow> file_info list" where
  "walk_tree exclude_dirs_lower exclude_files_lower fs root dest_root (Dir subdirs fnames) =
     (if in_excluded_directory exclude_dirs_lower root then []
      else collect_files exclude_files_lower fs root dest_root fnames) @
     concat (map (\<lambda>(d, t). walk_tree exclude_dirs_lower exclude_files_lower fs
                              (os_path_join root d) (os_path_join dest_root d) t)
               (filter (\<lambda>(d, t). lower d \<notin> set exclude_dirs_lower) subdirs))"

definition total_size :: "file_info list \<Rightarrow> nat" where
  "total_size files_to_copy = sum_list (map (\<lambda>(s, d, sz). sz) files_to_copy)"

text \<open>
  What the environment does to one attempt to copy a file: nothing, or an exception when
  the files are opened, or an exception after \<open>k\<close> chunks have been written, or an
  exception of \<^verbatim>\<open>shutil.copystat\<close> after all data has been written. The environment
  also decides which tasks find the cancellation flag set when they start.
\<close>

datatype fault = NoFault | FailOpen exn | FailAfterChunks nat exn | FailCopystat exn

record copy_env =
  cancel_requested :: "file_path \<Rightarrow> bool"
  fault_at :: "file_path \<Rightarrow> nat \<Rightarrow> fault"

text \<open>The file system with the state shared by the workers: the byte counter and the
  list of failures.\<close>

record copy_state =
  cfs :: filesystem
  copied_counter :: nat
  failed_files :: "(file_path \<times> exn) list"

definition chunk_size :: nat where
  "chunk_size = 4 * 1024 * 1024"

text \<open>\<^verbatim>\<open>remove_readonly_and_overwrite\<close>: clears the read-only attribute of an existing
  file; its own failures are logged and swallowed.\<close>

definition remove_readonly_and_overwrite :: "filesystem \<Rightarrow> file_path \<Rightarrow> filesystem" where
  "remove_readonly_and_overwrite fs p =
     (case lookup_file fs p of None \<Rightarrow> fs | Some f \<Rightarrow> store_file fs p (f\<lparr>writable := True\<rparr>))"

text \<open>
  The \<^verbatim>\<open>while True\<close> loop: read a chunk, stop when it is empty, write it. The first
  argument is the number of chunks after which the environment raises, if it does. The
  result says whether the loop was left by the exception, and what was written; every
  written chunk is also added to the shared counter.
\<close>

function copy_loop :: "nat option \<Rightarrow> byte list \<Rightarrow> bool \<times> byte list" where
  "copy_loop limit data =
     (if limit = Some 0 then (True, [])
      else (let chunk = take chunk_size data in
            if chunk = [] then (False, [])
            else (case copy_loop (map_option (\<lambda>k. k - 1) limit) (drop chunk_size data) of
                    (raised, written) \<Rightarrow> (raised, chunk @ written))))"
  by pat_completeness auto
termination
  by (relation "measure (\<lambda>(limit, data). length data)") (auto simp add: chunk_size_def)

declare copy_loop.simps [simp del]

text \<open>
  The \<^verbatim>\<open>try\<close> block of \<^verbatim>\<open>copy_single_file_safe\<close>: the exception it raises, if any,
  and the state afterwards. Opening the destination with \<^verbatim>\<open>'wb'\<close> truncates it, so
  a file copied onto itself is read as empty. \<^verbatim>\<open>copystat\<close> gives the destination
  the attributes of the source.
\<close>

definition copy_attempt :: "fault \<Rightarrow> copy_state \<Rightarrow> file_info \<Rightarrow> exn option \<times> copy_state" where
  "copy_attempt flt st file_info =
     (case file_info of (src_file, dest_file, sz) \<Rightarrow>
        (let fs1 = (if os_exists (cfs st) dest_file
                    then remove_readonly_and_overwrite (cfs st) dest_file else cfs st)
         in case flt of
              FailOpen e \<Rightarrow> (Some e, st\<lparr>cfs := fs1\<rparr>)
            | _ \<Rightarrow>
              (case lookup_file fs1 src_file of
                 None \<Rightarrow> (Some FileNotFoundError, st\<lparr>cfs := fs1\<rparr>)
               | Some f \<Rightarrow>
                   if \<not> readable f then (Some PermissionError, st\<lparr>cfs := fs1\<rparr>)
                   else
                     (let data = (if src_file = dest_file then [] else content f);
                          limit = (case flt of FailAfterChunks k e \<Rightarrow> Some k | _ \<Rightarrow> None)
                      in case copy_loop limit data of
                           (raised, written) \<Rightarrow>
                             (let fs2 = store_file fs1 dest_file
                                          \<lparr>content = written, readable = True, writable = True\<rparr>;
                                  st2 = st\<lparr>cfs := fs2,
                                           copied_counter := copied_counter st + length written\<rparr>
                              in case flt of
                                   FailAfterChunks k e \<Rightarrow>
                                     if raised then (Some e, st2)
                                     else (None, st2\<lparr>cfs := store_file fs1 dest_file (f\<lparr>content := written\<rparr>)\<rparr>)
                                 | FailCopystat e \<Rightarrow> (Some e, st2)
                                 | _ \<Rightarrow> (None, st2\<lparr>cfs := store_file fs1 dest_file (f\<lparr>content := written\<rparr>)\<rparr>))))))"

text \<open>
  \<^verbatim>\<open>copy_single_file_safe\<close>, the task of one worker: an \<open>Inl\<close> result is the exception
  that the future holds, an \<open>Inr\<close> result the returned triple. Only the first attempt
  of the environment is ever asked for.
\<close>

definition copy_single_file_safe ::
  "copy_env \<Rightarrow> copy_state \<Rightarrow> file_info \<Rightarrow> (exn + bool \<times> file_path \<times> exn option) \<times> copy_state" where
  "copy_single_file_safe env st file_info =
     (if cancel_requested env (fst file_info) then (Inl InterruptedError, st)
      else (case copy_attempt (fault_at env (fst file_info) 0) st file_info of
              (None, st') \<Rightarrow> (Inr (True, fst file_info, None), st')
            | (Some e, st') \<Rightarrow>
                (Inr (False, fst file_info, Some e),
                 st'\<lparr>failed_files := failed_files st' @ [(fst file_info, e)]\<rparr>)))"

text \<open>
  The pool and the loop over \<^verbatim>\<open>as_completed\<close>. The schedule of the pool is not
  modelled: the tasks run one after the other in the order of the manifest, and the
  result of each is handled when it is done. An exception held by a future is caught by
  \<^verbatim>\<open>except Exception\<close> and recorded in \<^verbatim>\<open>failed_files\<close>. The second component
  counts \<^verbatim>\<open>files_copied\<close>.
\<close>

fun run_tasks :: "copy_env \<Rightarrow> copy_state \<Rightarrow> nat \<Rightarrow> file_info list \<Rightarrow> copy_state \<times> nat" where
  "run_tasks env st files_copied [] = (st, files_copied)"
| "run_tasks env st files_copied (file_info # rest) =
     (case copy_single_file_safe env st file_info of
        (Inr (success, file_path, error), st') \<Rightarrow>
          run_tasks env st' (if success then Suc files_copied else files_copied) rest
      | (Inl e, st') \<Rightarrow>
          run_tasks env (st'\<lparr>failed_files := failed_files st' @ [(fst file_info, e)]\<rparr>)
            files_copied rest)"

text \<open>
  Python's \<^verbatim>\<open>int.bit_length\<close>, and rounding a natural number to 53 significant bits,
  ties to even: the significand of an IEEE double.
\<close>

fun bit_length :: "nat \<Rightarrow> nat" where
  "bit_length n = (if n = 0 then 0 else Suc (bit_length (n div 2)))"

declare bit_length.simps [simp del]

definition round53 :: "nat \<Rightarrow> nat" where
  "round53 n =
     (let k = bit_length n in
      if k \<le> 53 then n
      else (let s = k - 53; q = n div 2 ^ s; r = n mod 2 ^ s; half = 2 ^ (s - 1)
            in (if r > half \<or> (r = half \<and> odd q) then q + 1 else q) * 2 ^ s))"

text \<open>
  \<^verbatim>\<open>len(failed_files) > len(files_to_copy) * 0.1\<close> in Python's arithmetic. The
  literal \<^verbatim>\<open>0.1\<close> is the double \<open>3602879701896397 / 2^55\<close>. The length is converted to
  a double, the product is rounded to a double, and the integer on the left is compared
  with that double exactly. With \<open>m\<close> and \<open>n\<close> the two lengths, the product is
  \<open>round53 (round53 m * 3602879701896397) / 2^55\<close>.
\<close>

definition exceeds_tenth :: "nat \<Rightarrow> nat \<Rightarrow> bool" where
  "exceeds_tenth n m = (round53 (round53 m * 3602879701896397) < n * 2 ^ 55)"

text \<open>
  The lower-cased exclusion lists, with the defaults of the two optional arguments, and
  the manifest \<^verbatim>\<open>files_to_copy\<close> that \<^verbatim>\<open>copy_directory_parallel\<close> collects, before
  it is sorted.
\<close>

definition exclude_dirs_lower_of :: "string list option \<Rightarrow> string list" where
  "exclude_dirs_lower_of exclude_dirs =
     map lower (case exclude_dirs of None \<Rightarrow> default_exclude_dirs | Some ds \<Rightarrow> ds)"

definition exclude_files_lower_of :: "string list option \<Rightarrow> string list" where
  "exclude_files_lower_of exclude_files =
     map lower (case exclude_files of None \<Rightarrow> [] | Some xs \<Rightarrow> xs)"

definition files_to_copy_of ::
  "filesystem \<Rightarrow> dir_tree \<Rightarrow> path \<Rightarrow> path \<Rightarrow> string list option \<Rightarrow> string list option
     \<Rightarrow> file_info list" where
  "files_to_copy_of fs tree src_dir dest_dir exclude_dirs exclude_files =
     walk_tree (exclude_dirs_lower_of exclude_dirs) (exclude_files_lower_of exclude_files)
       fs src_dir dest_dir tree"

text \<open>
  \<^verbatim>\<open>copy_directory_parallel\<close>: the returned value or the raised exception, the final
  state, and \<^verbatim>\<open>files_copied\<close>. The source and destination paths are taken as
  normalised; the worker count and the progress display have no part in the result.
\<close>

definition copy_directory_parallel ::
  "copy_env \<Rightarrow> filesystem \<Rightarrow> dir_tree \<Rightarrow> path \<Rightarrow> path \<Rightarrow> string list option \<Rightarrow> string list option
     \<Rightarrow> (exn + bool) \<times> copy_state \<times> nat" where
  "copy_directory_parallel env fs tree src_dir dest_dir exclude_dirs exclude_files =
     (let files_to_copy = files_to_copy_of fs tree src_dir dest_dir exclude_dirs exclude_files;
          st0 = \<lparr>cfs = fs, copied_counter = 0, failed_files = []\<rparr>
      in if files_to_copy = [] then (Inr True, st0, 0)
         else (let sorted = sort_key (\<lambda>(s, d, sz). sz) files_to_copy in
               case run_tasks env st0 0 sorted of
                 (st, files_copied) \<Rightarrow>
                   if exceeds_tenth (length (failed_files st)) (length sorted)
                   then (Inl (TooManyCopyFailures (length (failed_files st)) (length sorted)),
                         st, files_copied)
                   else (Inr True, st, files_copied)))"

section \<open>Sequential copier\<close>

text \<open>
  The loop of \<^verbatim>\<open>copy_directory_with_progress\<close> over its \<^verbatim>\<open>files_to_copy\<close>. The
  environment decides, for each source file and each attempt, what happens to
  \<^verbatim>\<open>shutil.copy2\<close>, and which files find the cancellation flag set.
\<close>

record seq_env =
  seq_cancel_requested :: "file_path \<Rightarrow> bool"
  copy2_at :: "file_path \<Rightarrow> nat \<Rightarrow> copy2_outcome"

record seq_state =
  sfs :: filesystem
  copied_size :: nat
  files_copied :: nat

text \<open>
  The \<^verbatim>\<open>try\<close> statement for one file. A \<^verbatim>\<open>PermissionError\<close> of the first copy
  is answered by clearing the read-only attribute and copying once more; whatever the
  second copy raises is logged and the loop continues. Any other exception of the first
  copy leaves the \<^verbatim>\<open>try\<close> statement and ends the whole copy.
\<close>

definition copy_with_retry :: "seq_env \<Rightarrow> seq_state \<Rightarrow> file_info \<Rightarrow> exn option \<times> seq_state" where
  "copy_with_retry env st file_info =
     (case file_info of (src_file, dest_file, file_size) \<Rightarrow>
        (let fs1 = (if os_exists (sfs st) dest_file
                    then remove_readonly_and_overwrite (sfs st) dest_file else sfs st)
         in case shutil_copy2 (copy2_at env src_file 0) fs1 src_file dest_file of
              Return u fs2 \<Rightarrow>
                (None, st\<lparr>sfs := fs2, copied_size := copied_size st + file_size,
                          files_copied := Suc (files_copied st)\<rparr>)
            | Raise e fs2 \<Rightarrow>
                if e = PermissionError then
                  (let fs3 = remove_readonly_and_overwrite fs2 dest_file
                   in case shutil_copy2 (copy2_at env src_file 1) fs3 src_file dest_file of
                        Return u fs4 \<Rightarrow>
                          (None, st\<lparr>sfs := fs4, copied_size := copied_size st + file_size,
                                    files_copied := Suc (files_copied st)\<rparr>)
                      | Raise retry_error fs4 \<Rightarrow> (None, st\<lparr>sfs := fs4\<rparr>))
                else (Some e, st\<lparr>sfs := fs2\<rparr>)))"

fun copy_files_with_progress :: "seq_env \<Rightarrow> seq_state \<Rightarrow> file_info list \<Rightarrow> exn option \<times> seq_state" where
  "copy_files_with_progress env st [] = (None, st)"
| "copy_files_with_progress env st (file_info # rest) =
     (if seq_cancel_requested env (fst file_info) then (Some InterruptedError, st)
      else (case copy_with_retry env st file_info of
              (Some e, st') \<Rightarrow> (Some e, st')
            | (None, st') \<Rightarrow> copy_files_with_progress env st' rest))"

section \<open>Predicates used in the proofs, and concrete inputs\<close>

text \<open>
  A file is settled when no further rewrite can happen to it: its header is not a
  Next-Gen one, or it cannot be opened for writing.
\<close>

definition settled :: "filesystem \<Rightarrow> file_path \<Rightarrow> bool" where
  "settled fs p = (is_next_gen_header (from_file fs p) \<longrightarrow> isl (open_rw fs p))"

text \<open>
  The file system \<open>fs'\<close> comes from \<open>fs\<close> by version rewrites: the same file names, no
  new Next-Gen header, and settled files stay settled.
\<close>

definition evolves :: "filesystem \<Rightarrow> filesystem \<Rightarrow> bool" where
  "evolves fs fs' =
     (map fst (files fs') = map fst (files fs) \<and>
      (\<forall>p. is_next_gen_header (from_file fs' p) \<longrightarrow> is_next_gen_header (from_file fs p)) \<and>
      (\<forall>p. settled fs p \<longrightarrow> settled fs' p))"

definition in_dlc_group :: "file_path \<Rightarrow> bool" where
  "in_dlc_group q = (\<exists>g\<in>set dlc_groups. list_ex (\<lambda>pre. prefix pre (snd q)) (snd g))"

text \<open>A small Data directory: three DLC archives (one of them read-only) and a text file.\<close>

definition ex_archive :: "32 word \<Rightarrow> file_node" where
  "ex_archive v = \<lparr>content = BTDX @ pack_u32_le v @ [71, 78, 82, 76] @ pack_u32_le 3 @ [1, 2, 3],
                    readable = True, writable = True\<rparr>"

definition ex_data_fs :: filesystem where
  "ex_data_fs = \<lparr>dirs = [''Data''],
     files = [((''Data'', ''DLCRobot - Main.ba2''), ex_archive 8),
              ((''Data'', ''DLCCoast - Main.ba2''), ex_archive 1),
              ((''Data'', ''DLCNukaWorld - Main.BA2''), (ex_archive 7)\<lparr>writable := False\<rparr>),
              ((''Data'', ''notes.txt''), \<lparr>content = [1, 2, 3], readable = True, writable = True\<rparr>)]\<rparr>"

text \<open>
  Two game directories: the Automatron archive in the root is a Next-Gen one, the one in
  the Data subdirectory is compatible.
\<close>

definition ex_games_fs :: filesystem where
  "ex_games_fs = \<lparr>dirs = [''F4'', data_subdir ''F4''],
     files = [((''F4'', ''DLCRobot.esm''), \<lparr>content = [1], readable = True, writable = True\<rparr>),
              ((''F4'', ''DLCRobot - Main.ba2''), ex_archive 8),
              ((data_subdir ''F4'', ''DLCRobot.esm''), \<lparr>content = [1], readable = True, writable = True\<rparr>),
              ((data_subdir ''F4'', ''DLCRobot - Main.ba2''), ex_archive 1),
              ((data_subdir ''F4'', ''DLCRobot - Textures.ba2''), ex_archive 1)]\<rparr>"

text \<open>
  The version classification of the specification: one code is compatible, two codes
  need normalization, every other code is unknown. A candidate is compatible in these
  words when each of its archives has a readable header with the compatible code.
\<close>

datatype version_classification = Compatible | NeedsNormalization "32 word" | Unknown "32 word"

definition version_classification_of :: "32 word \<Rightarrow> version_classification" where
  "version_classification_of code =
     (if code = FALLOUT_4 then Compatible
      else if code \<in> set [FALLOUT_4_NG, FALLOUT_4_NG2] then NeedsNormalization code
      else Unknown code)"

definition candidate_compatible :: "filesystem \<Rightarrow> file_path list \<Rightarrow> bool" where
  "candidate_compatible fs ps =
     list_all (\<lambda>p. map_option (\<lambda>h. version_classification_of (version h)) (from_file fs p)
                    = Some Compatible) ps"

text \<open>
  A Fallout 4 directory whose Automatron archive is a Next-Gen one, and a Fallout 4 VR
  Data directory that holds the Automatron \<^verbatim>\<open>.esm\<close>, an archive of the unknown version 9
  and an archive too short to have a header.
\<close>

definition ex_unknown_fs :: filesystem where
  "ex_unknown_fs = \<lparr>dirs = [''F4'', ''VR'', data_subdir ''VR''],
     files = [((''F4'', ''DLCRobot.esm''), \<lparr>content = [1], readable = True, writable = True\<rparr>),
              ((''F4'', ''DLCRobot - Main.ba2''), ex_archive 8),
              ((data_subdir ''VR'', ''DLCRobot.esm''), \<lparr>content = [1], readable = True, writable = True\<rparr>),
              ((data_subdir ''VR'', ''DLCRobot - Main.ba2''), ex_archive 9),
              ((data_subdir ''VR'', ''DLCRobot - Textures.ba2''),
                 \<lparr>content = [66, 84, 68], readable = True, writable = True\<rparr>)]\<rparr>"

text \<open>The Automatron entry after the root directory has been scanned.\<close>

definition ex_automatron_ng :: dlc_data where
  "ex_automatron_ng = \<lparr>esm = ''DLCRobot.esm'', ba2_prefixes = [''DLCRobot''],
     found_in = Some ''Fallout 4 DLC'', esm_path = Some (''F4'', ''DLCRobot.esm''),
     ba2_paths = [(''F4'', ''DLCRobot - Main.ba2'')], is_next_gen = Some True\<rparr>"

text \<open>
  A mod directory whose \<^verbatim>\<open>Fallout4.esm\<close> has one of the two known sizes, and the
  assets directory with the patch tool and both patches.
\<close>

definition ex_esm :: file_node where
  "ex_esm = \<lparr>content = replicate 330777465 7, readable = True, writable = True\<rparr>"

definition ex_mod_fs :: filesystem where
  "ex_mod_fs = \<lparr>dirs = [''mod'', ''assets''],
     files = [((''mod'', ''Fallout4.esm''), ex_esm),
              ((''assets'', ''xdelta3.exe''), \<lparr>content = [1], readable = True, writable = True\<rparr>),
              ((''assets'', ''fallout4_323025.xdelta''), \<lparr>content = [2], readable = True, writable = True\<rparr>),
              ((''assets'', ''fallout4_322806.xdelta''), \<lparr>content = [3], readable = True, writable = True\<rparr>)]\<rparr>"

text \<open>
  A source tree with nine files in the root, one in a subdirectory and one in an excluded
  directory, its file system, and environments: no fault, one or two files that cannot be
  opened, a permission error on the first attempt only, and a cancellation request that
  the last task is the only one to see.
\<close>

definition ex_tree :: dir_tree where
  "ex_tree = Dir [(''F4SE'', Dir [] [''f4se.dll'']), (''Textures'', Dir [] [''t1.dds''])]
               [''a0'', ''a1'', ''a2'', ''a3'', ''a4'', ''a5'', ''a6'', ''a7'', ''a8'']"

definition ex_copy_fs :: filesystem where
  "ex_copy_fs = \<lparr>dirs = [''src'', os_path_join ''src'' ''Textures'', os_path_join ''src'' ''F4SE''],
     files = [((''src'', ''a0''), \<lparr>content = [1], readable = True, writable = True\<rparr>),
              ((''src'', ''a1''), \<lparr>content = [2], readable = True, writable = True\<rparr>),
              ((''src'', ''a2''), \<lparr>content = [3], readable = True, writable = True\<rparr>),
              ((''src'', ''a3''), \<lparr>content = [4], readable = True, writable = True\<rparr>),
              ((''src'', ''a4''), \<lparr>content = [5], readable = True, writable = True\<rparr>),
              ((''src'', ''a5''), \<lparr>content = [6], readable = True, writable = True\<rparr>),
              ((''src'', ''a6''), \<lparr>content = [7], readable = True, writable = True\<rparr>),
              ((''src'', ''a7''), \<lparr>content = [8], readable = True, writable = True\<rparr>),
              ((''src'', ''a8''), \<lparr>content = [9], readable = True, writable = True\<rparr>),
              ((os_path_join ''src'' ''Textures'', ''t1.dds''), \<lparr>content = [7, 7], readable = True, writable = True\<rparr>),
              ((os_path_join ''src'' ''F4SE'', ''f4se.dll''), \<lparr>content = [9], readable = True, writable = True\<rparr>)]\<rparr>"


definition ex_env_one_fault :: copy_env where
  "ex_env_one_fault = \<lparr>cancel_requested = (\<lambda>p. False),
     fault_at = (\<lambda>p n. if p = (''src'', ''a3'') then FailOpen OSError else NoFault)\<rparr>"

definition ex_env_two_faults :: copy_env where
  "ex_env_two_faults = \<lparr>cancel_requested = (\<lambda>p. False),
     fault_at = (\<lambda>p n. if p = (''src'', ''a3'') \<or> p = (''src'', ''a4'') then FailOpen OSError else NoFault)\<rparr>"

definition ex_env_permission :: copy_env where
  "ex_env_permission = \<lparr>cancel_requested = (\<lambda>p. False),
     fault_at = (\<lambda>p n. if p = (''src'', ''a3'') \<and> n = 0 then FailOpen PermissionError else NoFault)\<rparr>"

definition ex_env_cancel_last :: copy_env where
  "ex_env_cancel_last = \<lparr>cancel_requested = (\<lambda>p. p = (os_path_join ''src'' ''Textures'', ''t1.dds'')),
     fault_at = (\<lambda>p n. NoFault)\<rparr>"

definition ex_state0 :: copy_state where
  "ex_state0 = \<lparr>cfs = ex_copy_fs, copied_counter = 0, failed_files = []\<rparr>"


text \<open>The destination after the read-only attribute has been cleared.\<close>

definition prepared :: "filesystem \<Rightarrow> file_path \<Rightarrow> filesystem" where
  "prepared fs dest_file =
     (if os_exists fs dest_file then remove_readonly_and_overwrite fs dest_file else fs)"


text \<open>
  For the sequential copier: the first copy of \<^verbatim>\<open>a3\<close> raises a permission error, a
  second one succeeds.
\<close>

definition ex_seq_env :: seq_env where
  "ex_seq_env = \<lparr>seq_cancel_requested = (\<lambda>p. False),
     copy2_at = (\<lambda>p n. if p = (''src'', ''a3'') \<and> n = 0
                         then CopyFailsBeforeCreate PermissionError else CopyOk)\<rparr>"

definition ex_seq_state0 :: seq_state where
  "ex_seq_state0 = \<lparr>sfs = ex_copy_fs, copied_size = 0, files_copied = 0\<rparr>"

text \<open>A directory whose name only contains the excluded name \<^verbatim>\<open>source\<close>.\<close>

definition ex_resources_tree :: dir_tree where
  "ex_resources_tree = Dir [(''Resources'', Dir [] [''r.txt''])] [''a0'']"

definition ex_resources_fs :: filesystem where
  "ex_resources_fs = \<lparr>dirs = [''src'', os_path_join ''src'' ''Resources''],
     files = [((''src'', ''a0''), \<lparr>content = [1], readable = True, writable = True\<rparr>),
              ((os_path_join ''src'' ''Resources'', ''r.txt''),
               \<lparr>content = [2], readable = True, writable = True\<rparr>)]\<rparr>"

section \<open>Header codec: proofs\<close>

lemma unpack_pack: "unpack_u32_le (pack_u32_le w) = Some w"
proof -
  have "ucast (ucast w :: byte) OR push_bit 8 (ucast (ucast (drop_bit 8 w) :: byte))
        OR push_bit 16 (ucast (ucast (drop_bit 16 w) :: byte))
        OR push_bit 24 (ucast (ucast (drop_bit 24 w) :: byte)) = w"
  proof (rule bit_word_eqI)
    fix n assume "n < LENGTH(32)"
    then have "n < 8 \<or> (8 \<le> n \<and> n < 16) \<or> (16 \<le> n \<and> n < 24) \<or> (24 \<le> n \<and> n < 32)"
      by auto
    then show "bit (ucast (ucast w :: byte) OR push_bit 8 (ucast (ucast (drop_bit 8 w) :: byte))
        OR push_bit 16 (ucast (ucast (drop_bit 16 w) :: byte))
        OR push_bit 24 (ucast (ucast (drop_bit 24 w) :: byte)) :: 32 word) n = bit w n"
      by (auto simp add: bit_simps)
  qed
  then show ?thesis by (simp add: pack_u32_le_def)
qed

lemma length_pack: "length (pack_u32_le w) = 4"
  by (simp add: pack_u32_le_def)

lemma lookup_store: "lookup_file (store_file fs q f) p = (if p = q then Some f else lookup_file fs p)"
  by (simp add: lookup_file_def store_file_def update_conv')

lemma keys_store:
  "lookup_file fs q = Some g \<Longrightarrow> map fst (files (store_file fs q f)) = map fst (files fs)"
  by (auto simp add: lookup_file_def store_file_def update_keys dest: map_of_SomeD intro: rev_image_eqI)

lemma dirs_store: "dirs (store_file fs q f) = dirs fs"
  by (simp add: store_file_def)

lemma from_file_cong:
  "lookup_file fs' p = lookup_file fs p \<Longrightarrow> from_file fs' p = from_file fs p"
  by (simp add: from_file_def from_file_body_def open_rb_def)

lemma open_rw_cong:
  "lookup_file fs' p = lookup_file fs p \<Longrightarrow> open_rw fs' p = open_rw fs p"
  by (simp add: open_rw_def)

lemma slice_take: "j \<le> n \<Longrightarrow> slice i j (take n xs) = slice i j xs"
  by (simp add: slice_def drop_take min_def)

lemma slice_0: "slice 0 j xs = take j xs"
  by (simp add: slice_def)

lemma slice_via_drop: "k \<le> i \<Longrightarrow> slice i j xs = slice (i - k) (j - k) (drop k xs)"
  by (simp add: slice_def)

lemma from_file_SomeD:
  assumes "from_file fs p = Some h"
  obtains f where "lookup_file fs p = Some f" "readable f" "16 \<le> length (content f)"
    "take 4 (content f) = BTDX"
    "unpack_u32_le (slice 4 8 (content f)) = Some (version h)"
    "unpack_u32_le (slice 12 16 (content f)) = Some (file_count h)"
    "magic h = take 4 (content f)" "format h = slice 8 12 (content f)"
  using assms
  by (auto simp add: from_file_def from_file_body_def open_rb_def slice_take slice_0 Let_def
      split: option.splits sum.splits if_splits)

lemma write_at_header:
  assumes "16 \<le> length c" "length d = 4"
  shows "length (write_at 4 d c) = length c"
    "take 4 (write_at 4 d c) = take 4 c"
    "slice 4 8 (write_at 4 d c) = d"
    "drop 8 (write_at 4 d c) = drop 8 c"
  using assms by (simp_all add: write_at_def slice_def)

lemma from_file_after_write:
  assumes "lookup_file fs p = Some f" and "from_file fs p = Some h"
  shows "from_file (store_file fs p (f\<lparr>content := write_at 4 (pack_u32_le code) (content f)\<rparr>)) p
         = Some (h\<lparr>version := code\<rparr>)"
proof -
  let ?c = "content f" and ?c' = "write_at 4 (pack_u32_le code) (content f)"
  from assms obtain len: "16 \<le> length ?c" and rd: "readable f" and mg: "take 4 ?c = BTDX"
    and fc: "unpack_u32_le (slice 12 16 ?c) = Some (file_count h)"
    and hm: "magic h = take 4 ?c" and hf: "format h = slice 8 12 ?c"
    by (auto elim!: from_file_SomeD)
  note w = write_at_header [OF len length_pack [of code]]
  have s3: "slice 8 12 ?c' = slice 8 12 ?c" "slice 12 16 ?c' = slice 12 16 ?c"
    using w(4) by (simp_all add: slice_via_drop [of 8])
  have eq: "h\<lparr>version := code\<rparr> = \<lparr>magic = take 4 ?c, version = code, format = slice 8 12 ?c, file_count = file_count h\<rparr>"
    using hm hf by simp
  show ?thesis
    using len rd mg fc w(1,2,3) s3 unpack_pack [of code]
    by (simp add: from_file_def from_file_body_def open_rb_def lookup_store Let_def eq slice_take slice_0)
qed


lemma FALLOUT_4_not_next_gen: "FALLOUT_4 \<notin> set [FALLOUT_4_NG, FALLOUT_4_NG2]"
  by (simp add: FALLOUT_4_def FALLOUT_4_NG_def FALLOUT_4_NG2_def)

lemma downgrade_ba2_file_eq:
  "downgrade_ba2_file fs q =
     (if is_next_gen_header (from_file fs q) \<and> \<not> isl (open_rw fs q)
      then (True, store_file fs q
              ((projr (open_rw fs q))\<lparr>content := write_at 4 (pack_u32_le FALLOUT_4) (content (projr (open_rw fs q)))\<rparr>))
      else (case from_file fs q of None \<Rightarrow> False | Some h \<Rightarrow> version h = FALLOUT_4, fs))"
  by (simp add: downgrade_ba2_file_def write_version_code_def is_next_gen_header_def
      FALLOUT_4_def FALLOUT_4_NG_def FALLOUT_4_NG2_def split: option.split sum.split)

lemma open_rw_InrD: "open_rw fs q = Inr f \<Longrightarrow> lookup_file fs q = Some f"
  by (simp add: open_rw_def split: option.splits if_splits)

lemma downgrade_ba2_file_cases:
  assumes "downgrade_ba2_file fs q = (ok, fs')"
  obtains (unchanged) "fs' = fs" "settled fs q"
  | (written) f h where "lookup_file fs q = Some f" "from_file fs q = Some h" "ok"
      "fs' = store_file fs q (f\<lparr>content := write_at 4 (pack_u32_le FALLOUT_4) (content f)\<rparr>)"
proof (cases "is_next_gen_header (from_file fs q) \<and> \<not> isl (open_rw fs q)")
  case True
  then obtain f h where f: "open_rw fs q = Inr f" and h: "from_file fs q = Some h"
    by (cases "open_rw fs q"; cases "from_file fs q") (simp_all add: is_next_gen_header_def)
  from True assms f have "ok" "fs' = store_file fs q (f\<lparr>content := write_at 4 (pack_u32_le FALLOUT_4) (content f)\<rparr>)"
    by (simp_all add: downgrade_ba2_file_eq)
  with open_rw_InrD [OF f] h show ?thesis by (rule written)
next
  case False
  with assms have "fs' = fs" "settled fs q"
    by (auto simp add: downgrade_ba2_file_eq settled_def)
  then show ?thesis by (rule unchanged)
qed


lemma downgrade_ba2_file_keys:
  assumes "downgrade_ba2_file fs q = (ok, fs')"
  shows "map fst (files fs') = map fst (files fs)"
  using assms by (cases rule: downgrade_ba2_file_cases) (simp_all add: keys_store)


lemma written_same:
  assumes "lookup_file fs q = Some f" "from_file fs q = Some h"
    "fs' = store_file fs q (f\<lparr>content := write_at 4 (pack_u32_le FALLOUT_4) (content f)\<rparr>)"
  shows "from_file fs' q = Some (h\<lparr>version := FALLOUT_4\<rparr>)"
  by (simp only: assms(3) from_file_after_write [OF assms(1,2)])

lemma written_other:
  assumes "fs' = store_file fs q g" "p \<noteq> q"
  shows "from_file fs' p = from_file fs p" "open_rw fs' p = open_rw fs p"
proof -
  have "lookup_file fs' p = lookup_file fs p"
    using assms(2) by (simp only: assms(1) lookup_store if_False)
  then show "from_file fs' p = from_file fs p" "open_rw fs' p = open_rw fs p"
    by (rule from_file_cong, rule open_rw_cong)
qed

lemma not_ng_after: "\<not> is_next_gen_header (Some (h\<lparr>version := FALLOUT_4\<rparr>))"
  by (simp add: is_next_gen_header_def FALLOUT_4_def FALLOUT_4_NG_def FALLOUT_4_NG2_def)

lemma downgrade_ba2_file_no_new_ng:
  assumes "downgrade_ba2_file fs q = (ok, fs')" and "is_next_gen_header (from_file fs' p)"
  shows "is_next_gen_header (from_file fs p)"
  using assms(1)
proof (cases rule: downgrade_ba2_file_cases)
  case unchanged
  with assms(2) show ?thesis by simp
next
  case (written f h)
  show ?thesis
  proof (cases "p = q")
    case True
    have "from_file fs' q = Some (h\<lparr>version := FALLOUT_4\<rparr>)"
      using written(1,2,4) by (rule written_same)
    with assms(2) True not_ng_after [of h] show ?thesis by simp
  next
    case False
    have "from_file fs' p = from_file fs p"
      using written(4) False by (rule written_other)
    with assms(2) show ?thesis by simp
  qed
qed

lemma downgrade_ba2_file_settled_pres:
  assumes "downgrade_ba2_file fs q = (ok, fs')" and "settled fs p"
  shows "settled fs' p"
  using assms(1)
proof (cases rule: downgrade_ba2_file_cases)
  case unchanged
  with assms(2) show ?thesis by simp
next
  case (written f h)
  show ?thesis
  proof (cases "p = q")
    case True
    have "from_file fs' q = Some (h\<lparr>version := FALLOUT_4\<rparr>)"
      using written(1,2,4) by (rule written_same)
    with True not_ng_after [of h] show ?thesis by (simp add: settled_def)
  next
    case False
    have "from_file fs' p = from_file fs p" "open_rw fs' p = open_rw fs p"
      using written(4) False by (rule written_other)+
    with assms(2) show ?thesis by (simp add: settled_def)
  qed
qed

lemma downgrade_ba2_file_settles:
  assumes "downgrade_ba2_file fs q = (ok, fs')"
  shows "settled fs' q"
  using assms(1)
proof (cases rule: downgrade_ba2_file_cases)
  case unchanged
  then show ?thesis by simp
next
  case (written f h)
  have "from_file fs' q = Some (h\<lparr>version := FALLOUT_4\<rparr>)"
    using written(1,2,4) by (rule written_same)
  with not_ng_after [of h] show ?thesis by (simp add: settled_def)
qed

lemma downgrade_ba2_file_stuck:
  assumes "is_next_gen_header (from_file fs q)" and "settled fs q"
  shows "downgrade_ba2_file fs q = (False, fs)"
proof -
  from assms have "isl (open_rw fs q)" by (simp add: settled_def)
  moreover from assms(1) obtain h where "from_file fs q = Some h" "version h \<noteq> FALLOUT_4"
    using not_ng_after by (cases "from_file fs q") (auto simp add: is_next_gen_header_def FALLOUT_4_def FALLOUT_4_NG_def FALLOUT_4_NG2_def)
  ultimately show ?thesis
    using assms(1) by (simp add: downgrade_ba2_file_eq)
qed


lemma evolves_refl: "evolves fs fs"
  by (simp add: evolves_def)

lemma evolves_trans: "evolves fs fs' \<Longrightarrow> evolves fs' fs'' \<Longrightarrow> evolves fs fs''"
  by (simp add: evolves_def)

lemma downgrade_ba2_file_evolves:
  "downgrade_ba2_file fs q = (ok, fs') \<Longrightarrow> evolves fs fs'"
  unfolding evolves_def
  using downgrade_ba2_file_keys downgrade_ba2_file_no_new_ng downgrade_ba2_file_settled_pres
  by blast

lemma downgrade_files_evolves:
  "downgrade_files fs ps = (n, dl, fs') \<Longrightarrow> evolves fs fs' \<and> (\<forall>q\<in>set ps. settled fs' q)"
proof (induction ps arbitrary: fs n dl fs')
  case Nil
  then show ?case by (simp add: evolves_refl)
next
  case (Cons q ps)
  obtain ok fs1 where 1: "downgrade_ba2_file fs q = (ok, fs1)"
    by (cases "downgrade_ba2_file fs q")
  obtain n2 dl2 fs2 where 2: "downgrade_files fs1 ps = (n2, dl2, fs2)"
    by (cases "downgrade_files fs1 ps")
  from Cons.prems 1 2 have eq: "fs' = fs2" by (simp split: if_splits)
  from Cons.IH [OF 2] have ev2: "evolves fs1 fs2" and st2: "\<forall>q\<in>set ps. settled fs2 q" by simp_all
  have ev1: "evolves fs fs1" using 1 by (rule downgrade_ba2_file_evolves)
  have "settled fs1 q" using 1 by (rule downgrade_ba2_file_settles)
  with ev2 have "settled fs2 q" unfolding evolves_def by blast
  with st2 evolves_trans [OF ev1 ev2] eq show ?case by simp
qed

lemma downgrade_groups_evolves:
  "downgrade_groups fs gs = (r, fs') \<Longrightarrow>
     evolves fs fs' \<and> (\<forall>g\<in>set gs. \<forall>q\<in>set (snd g). settled fs' q)"
proof (induction gs arbitrary: fs r fs')
  case Nil
  then show ?case by (simp add: evolves_refl)
next
  case (Cons g gs)
  obtain name ps where g: "g = (name, ps)" by (cases g)
  obtain n dl fs1 where 1: "downgrade_files fs ps = (n, dl, fs1)"
    by (cases "downgrade_files fs ps") auto
  obtain r2 fs2 where 2: "downgrade_groups fs1 gs = (r2, fs2)"
    by (cases "downgrade_groups fs1 gs")
  from Cons.prems g 1 2 have eq: "fs' = fs2" by (cases r2) simp
  from Cons.IH [OF 2] have ev2: "evolves fs1 fs2"
    and st2: "\<forall>g\<in>set gs. \<forall>q\<in>set (snd g). settled fs2 q" by simp_all
  from downgrade_files_evolves [OF 1] have ev1: "evolves fs fs1"
    and st1: "\<forall>q\<in>set ps. settled fs1 q" by simp_all
  from st1 ev2 have "\<forall>q\<in>set ps. settled fs2 q" unfolding evolves_def by blast
  with st2 evolves_trans [OF ev1 ev2] eq g show ?case by simp
qed

lemma downgrade_files_stuck:
  "\<forall>q\<in>set ps. is_next_gen_header (from_file fs q) \<and> settled fs q \<Longrightarrow>
     downgrade_files fs ps = (0, [], fs)"
  by (induction ps) (simp_all add: downgrade_ba2_file_stuck)

lemma downgrade_groups_stuck:
  "\<forall>g\<in>set gs. \<forall>q\<in>set (snd g). is_next_gen_header (from_file fs q) \<and> settled fs q \<Longrightarrow>
     downgrade_groups fs gs = ((0, []), fs)"
proof (induction gs)
  case Nil
  then show ?case by simp
next
  case (Cons g gs)
  obtain name ps where g: "g = (name, ps)" by (cases g)
  with Cons.prems have "downgrade_files fs ps = (0, [], fs)"
    by (intro downgrade_files_stuck) simp
  with Cons g show ?case by simp
qed

lemma glob_ba2_keys:
  "map fst (files fs') = map fst (files fs) \<Longrightarrow> glob_ba2 fs' d = glob_ba2 fs d"
  by (simp add: glob_ba2_def)

lemma needing_sound:
  assumes "g \<in> set (get_dlc_needing_downgrade self fs)" "q \<in> set (snd g)"
  shows "q \<in> set (glob_ba2 fs (data_path self)) \<and> in_dlc_group q \<and> is_next_gen_header (from_file fs q)"
  using assms
proof -
  from assms(1) obtain e where e: "e \<in> set (find_dlc_ba2_status self fs)"
    and ge: "g \<in> set (needing_entry fs e)"
    by (auto simp add: get_dlc_needing_downgrade_def)
  from e obtain grp where grp: "grp \<in> set dlc_groups"
    and eg: "e \<in> set (dlc_status_entry fs (glob_ba2 fs (data_path self)) grp)"
    by (auto simp add: find_dlc_ba2_status_def)
  from eg have "set (fst (snd e)) \<subseteq>
      {p \<in> set (glob_ba2 fs (data_path self)). list_ex (\<lambda>pre. prefix pre (snd p)) (snd grp)}"
    by (auto simp add: dlc_status_entry_def Let_def split: if_splits)
  moreover from ge have "set (snd g) \<subseteq>
      {p \<in> set (fst (snd e)). is_next_gen_header (from_file fs p)}"
    by (auto simp add: needing_entry_def Let_def split: if_splits prod.splits)
  ultimately have "q \<in> set (glob_ba2 fs (data_path self))"
    "list_ex (\<lambda>pre. prefix pre (snd q)) (snd grp)" "is_next_gen_header (from_file fs q)"
    using assms(2) by auto
  with grp show ?thesis by (auto simp add: in_dlc_group_def)
qed

lemma needing_complete:
  assumes "q \<in> set (glob_ba2 fs (data_path self))" "in_dlc_group q"
    "is_next_gen_header (from_file fs q)"
  shows "\<exists>g\<in>set (get_dlc_needing_downgrade self fs). q \<in> set (snd g)"
proof -
  from assms(2) obtain g where g: "g \<in> set dlc_groups"
    and pre: "list_ex (\<lambda>pre. prefix pre (snd q)) (snd g)"
    by (auto simp add: in_dlc_group_def)
  define dlc_files where
    "dlc_files = filter (\<lambda>ba2_file. list_ex (\<lambda>pre. prefix pre (snd ba2_file)) (snd g)) (glob_ba2 fs (data_path self))"
  define ngs where "ngs = filter (\<lambda>file_path. is_next_gen_header (from_file fs file_path)) dlc_files"
  have q1: "q \<in> set dlc_files" using assms(1) pre by (simp add: dlc_files_def)
  then have q2: "q \<in> set ngs" using assms(3) by (simp add: ngs_def)
  have ne: "dlc_files \<noteq> []" "ngs \<noteq> []" using q1 q2 by auto
  have ex: "list_ex (\<lambda>ba2_file. is_next_gen_header (from_file fs ba2_file)) dlc_files"
    using q1 assms(3) by (auto simp add: list_ex_iff)
  have "dlc_status_entry fs (glob_ba2 fs (data_path self)) g = [(fst g, dlc_files, ''Needs Downgrade'')]"
    using ne(1) ex by (simp add: dlc_status_entry_def dlc_files_def [symmetric] Let_def)
  with g have "(fst g, dlc_files, ''Needs Downgrade'') \<in> set (find_dlc_ba2_status self fs)"
    by (force simp add: find_dlc_ba2_status_def)
  moreover have "needing_entry fs (fst g, dlc_files, ''Needs Downgrade'') = [(fst g, ngs)]"
    using ne(2) by (simp add: needing_entry_def ngs_def [symmetric] Let_def)
  ultimately have "(fst g, ngs) \<in> set (get_dlc_needing_downgrade self fs)"
    by (force simp add: get_dlc_needing_downgrade_def)
  with q2 show ?thesis by force
qed

section \<open>Header codec and version normalizer: the claims\<close>

text \<open>
  C9: for a file whose first four bytes are not the magic tag \<open>BTDX\<close>, or whose content
  is shorter than 16 bytes, \<^verbatim>\<open>BA2Header.from_file\<close> returns \<^verbatim>\<open>None\<close>; and
  every exception raised in its body is answered with \<^verbatim>\<open>None\<close> as well, so nothing
  is raised to the caller.
\<close>

theorem from_file_rejects_invalid:
  "(lookup_file fs p = Some f \<and> (length (content f) < 16 \<or> take 4 (content f) \<noteq> BTDX)
      \<longrightarrow> from_file fs p = None) \<and>
   (\<forall>e. from_file_body fs p = Inl e \<longrightarrow> from_file fs p = None)"
  by (auto simp add: from_file_def from_file_body_def open_rb_def slice_take slice_0 Let_def
      split: option.splits sum.splits)

theorem from_file_rejects_invalid_witness:
  "lookup_file ex_data_fs (''Data'', ''notes.txt'') = Some \<lparr>content = [1, 2, 3], readable = True, writable = True\<rparr>
   \<and> length [1, 2, 3 :: byte] < 16
   \<and> from_file ex_data_fs (''Data'', ''notes.txt'') = None"
  using from_file_rejects_invalid [of ex_data_fs "(''Data'', ''notes.txt'')" "\<lparr>content = [1, 2, 3], readable = True, writable = True\<rparr>"]
  by (simp add: lookup_file_def ex_data_fs_def)


text \<open>
  C3: for a file with a valid header \<open>h\<close>, writing a version code at byte offset 4 (the
  write that the downgrade path performs) and reading the header again gives \<open>h\<close> with
  the version field replaced by the code. The length of the file, its first 4 bytes and
  all bytes from offset 8 on are unchanged. On a Next-Gen header
  \<^verbatim>\<open>downgrade_ba2_file\<close> performs exactly this write with the code
  \<^verbatim>\<open>FALLOUT_4\<close>.
\<close>

theorem header_round_trip:
  assumes "lookup_file fs p = Some f" and "from_file fs p = Some h" and "writable f"
  shows "let c' = write_at 4 (pack_u32_le code) (content f);
             fs' = store_file fs p (f\<lparr>content := c'\<rparr>)
         in write_version_code fs p code = Inr fs' \<and>
            from_file fs' p = Some (h\<lparr>version := code\<rparr>) \<and>
            length c' = length (content f) \<and>
            take 4 c' = take 4 (content f) \<and>
            drop 8 c' = drop 8 (content f) \<and>
            (version h \<in> set [FALLOUT_4_NG, FALLOUT_4_NG2] \<and> code = FALLOUT_4
               \<longrightarrow> downgrade_ba2_file fs p = (True, fs'))"
proof -
  from assms(1,2) have len: "16 \<le> length (content f)" and rd: "readable f"
    by (auto elim!: from_file_SomeD)
  note w = write_at_header [OF len length_pack [of code]]
  have wr: "write_version_code fs p code =
      Inr (store_file fs p (f\<lparr>content := write_at 4 (pack_u32_le code) (content f)\<rparr>))"
    using assms(1,3) rd by (simp add: write_version_code_def open_rw_def)
  have dg: "downgrade_ba2_file fs p =
      (True, store_file fs p (f\<lparr>content := write_at 4 (pack_u32_le FALLOUT_4) (content f)\<rparr>))"
    if "version h \<in> set [FALLOUT_4_NG, FALLOUT_4_NG2]" "code = FALLOUT_4"
    using that assms(2) wr FALLOUT_4_not_next_gen
    by (auto simp add: downgrade_ba2_file_def)
  show ?thesis
    using wr from_file_after_write [OF assms(1,2), of code] w(1,2,4) dg
    by (simp add: Let_def)
qed

theorem header_round_trip_witness:
  "lookup_file ex_data_fs (''Data'', ''DLCRobot - Main.ba2'') = Some (ex_archive 8) \<and>
   from_file ex_data_fs (''Data'', ''DLCRobot - Main.ba2'') =
     Some \<lparr>magic = BTDX, version = 8, format = [71, 78, 82, 76], file_count = 3\<rparr> \<and>
   writable (ex_archive 8) \<and>
   from_file (store_file ex_data_fs (''Data'', ''DLCRobot - Main.ba2'') (ex_archive 1))
       (''Data'', ''DLCRobot - Main.ba2'') =
     Some \<lparr>magic = BTDX, version = 1, format = [71, 78, 82, 76], file_count = 3\<rparr> \<and>
   downgrade_ba2_file ex_data_fs (''Data'', ''DLCRobot - Main.ba2'') =
     (True, store_file ex_data_fs (''Data'', ''DLCRobot - Main.ba2'') (ex_archive 1))"
proof -
  have l: "lookup_file ex_data_fs (''Data'', ''DLCRobot - Main.ba2'') = Some (ex_archive 8)"
    by (simp add: lookup_file_def ex_data_fs_def)
  have h: "from_file ex_data_fs (''Data'', ''DLCRobot - Main.ba2'') =
     Some \<lparr>magic = BTDX, version = 8, format = [71, 78, 82, 76], file_count = 3\<rparr>"
    by code_simp
  have w: "writable (ex_archive 8)"
    by (simp add: ex_archive_def)
  have c: "(ex_archive 8)\<lparr>content := write_at 4 (pack_u32_le 1) (content (ex_archive 8))\<rparr>
      = ex_archive 1"
    by code_simp
  from header_round_trip [OF l h w, of FALLOUT_4] l h w show ?thesis
    by (simp add: Let_def c FALLOUT_4_def FALLOUT_4_NG_def)
qed



text \<open>
  C5: running \<^verbatim>\<open>downgrade_dlc_ba2_files\<close> a second time, on the file system that the
  first run left, changes nothing and reports success count 0 and an empty per-group
  map.
\<close>

theorem normalizer_idempotent:
  "downgrade_dlc_ba2_files self (snd (downgrade_dlc_ba2_files self fs)) =
     ((0, []), snd (downgrade_dlc_ba2_files self fs))"
proof -
  define fs1 where "fs1 = snd (downgrade_dlc_ba2_files self fs)"
  have ev: "evolves fs fs1 \<and> (\<forall>g\<in>set (get_dlc_needing_downgrade self fs). \<forall>q\<in>set (snd g). settled fs1 q)"
  proof (cases "get_dlc_needing_downgrade self fs = []")
    case True
    then show ?thesis by (simp add: fs1_def downgrade_dlc_ba2_files_def evolves_refl)
  next
    case False
    then have "downgrade_groups fs (get_dlc_needing_downgrade self fs) = (fst (downgrade_dlc_ba2_files self fs), fs1)"
      by (simp add: fs1_def downgrade_dlc_ba2_files_def)
    then show ?thesis by (rule downgrade_groups_evolves)
  qed
  then have ev1: "evolves fs fs1"
    and st: "\<forall>g\<in>set (get_dlc_needing_downgrade self fs). \<forall>q\<in>set (snd g). settled fs1 q"
    by simp_all
  have "\<forall>g\<in>set (get_dlc_needing_downgrade self fs1). \<forall>q\<in>set (snd g).
          is_next_gen_header (from_file fs1 q) \<and> settled fs1 q"
  proof (intro ballI)
    fix g q assume g: "g \<in> set (get_dlc_needing_downgrade self fs1)" and q: "q \<in> set (snd g)"
    from needing_sound [OF g q] have 1: "q \<in> set (glob_ba2 fs1 (data_path self))"
      and 2: "in_dlc_group q" and 3: "is_next_gen_header (from_file fs1 q)" by simp_all
    from ev1 have "glob_ba2 fs1 (data_path self) = glob_ba2 fs (data_path self)"
      by (intro glob_ba2_keys) (simp add: evolves_def)
    with 1 have g1: "q \<in> set (glob_ba2 fs (data_path self))" by simp
    from ev1 3 have g3: "is_next_gen_header (from_file fs q)" unfolding evolves_def by blast
    from needing_complete [OF g1 2 g3] st have "settled fs1 q" by blast
    with 3 show "is_next_gen_header (from_file fs1 q) \<and> settled fs1 q" by simp
  qed
  then have "downgrade_groups fs1 (get_dlc_needing_downgrade self fs1) = ((0, []), fs1)"
    by (rule downgrade_groups_stuck)
  then have "downgrade_dlc_ba2_files self fs1 = ((0, []), fs1)"
    by (simp add: downgrade_dlc_ba2_files_def Let_def)
  then show ?thesis by (simp only: fs1_def)
qed

theorem normalizer_idempotent_witness:
  "fst (downgrade_dlc_ba2_files \<lparr>data_path = ''Data''\<rparr> ex_data_fs) =
     (1, [(''Automatron DLC'', [(''Data'', ''DLCRobot - Main.ba2'')])]) \<and>
   snd (downgrade_dlc_ba2_files \<lparr>data_path = ''Data''\<rparr> ex_data_fs) =
     store_file ex_data_fs (''Data'', ''DLCRobot - Main.ba2'') (ex_archive 1) \<and>
   downgrade_dlc_ba2_files \<lparr>data_path = ''Data''\<rparr>
       (store_file ex_data_fs (''Data'', ''DLCRobot - Main.ba2'') (ex_archive 1)) =
     ((0, []), store_file ex_data_fs (''Data'', ''DLCRobot - Main.ba2'') (ex_archive 1))"
proof -
  have r: "downgrade_dlc_ba2_files \<lparr>data_path = ''Data''\<rparr> ex_data_fs =
     ((1, [(''Automatron DLC'', [(''Data'', ''DLCRobot - Main.ba2'')])]),
      store_file ex_data_fs (''Data'', ''DLCRobot - Main.ba2'') (ex_archive 1))"
    by code_simp
  from normalizer_idempotent [of "\<lparr>data_path = ''Data''\<rparr>" ex_data_fs] r show ?thesis
    by simp
qed

section \<open>DLC resolver: proofs\<close>

lemma scan_lookup:
  assumes "is_dir fs dir"
  shows "map_of (scan_single_directory_for_dlc fs dir dlc_info src) name =
           map_option (scan_dlc_entry fs (iterdir_files fs dir) src) (map_of dlc_info name)"
  using assms by (simp add: scan_single_directory_for_dlc_def map_of_map)

lemma scan_not_dir:
  "\<not> is_dir fs dir \<Longrightarrow> scan_single_directory_for_dlc fs dir dlc_info src = dlc_info"
  by (simp add: scan_single_directory_for_dlc_def)

lemma esm_map_SomeD:
  assumes "esm_map fls e = Some p"
  shows "p \<in> set fls \<and> snd p = e"
proof -
  from assms have "(e, p) \<in> set (rev (map (\<lambda>p. (snd p, p)) (filter (\<lambda>p. suffix ''.esm'' (lower (snd p))) fls)))"
    unfolding esm_map_def by (rule map_of_SomeD)
  then show ?thesis by auto
qed

lemma esm_map_in_dir:
  assumes "esm_map (iterdir_files fs dir) e = Some p"
  shows "p = (dir, e)"
  using esm_map_SomeD [OF assms] by (auto simp add: iterdir_files_def)

lemma candidate_in_dir:
  "p \<in> set (candidate_ba2_paths (iterdir_files fs dir) d) \<Longrightarrow> fst p = dir"
  by (auto simp add: candidate_ba2_paths_def ba2_map_def iterdir_files_def)

lemma candidate_not_ng:
  "\<not> candidate_is_ng fs fls d \<Longrightarrow> p \<in> set (candidate_ba2_paths fls d) \<Longrightarrow>
     \<not> is_next_gen_header (from_file fs p)"
  by (auto simp add: candidate_is_ng_def list_ex_iff)

lemma compatible_not_ng:
  assumes "candidate_compatible fs (candidate_ba2_paths fls d)"
  shows "\<not> candidate_is_ng fs fls d"
proof
  assume "candidate_is_ng fs fls d"
  then obtain p where p: "p \<in> set (candidate_ba2_paths fls d)"
    and n: "is_next_gen_header (from_file fs p)"
    by (auto simp add: candidate_is_ng_def list_ex_iff)
  from assms p have "map_option (\<lambda>h. version_classification_of (version h)) (from_file fs p) = Some Compatible"
    by (simp add: candidate_compatible_def list_all_iff)
  then obtain h where h: "from_file fs p = Some h" and c: "version_classification_of (version h) = Compatible"
    by auto
  from c have "version h = FALLOUT_4"
    by (simp add: version_classification_of_def split: if_splits)
  with n h FALLOUT_4_not_next_gen show False
    by (simp add: is_next_gen_header_def)
qed

text \<open>
  C4 as it is stated fails. The Automatron group is resolved as Next-Gen in the Fallout 4
  directory. The Fallout 4 VR Data directory, scanned later, holds the \<^verbatim>\<open>.esm\<close> of the
  group, an archive whose version code 9 is unknown and an archive whose header cannot
  be read. The candidate is not compatible, and yet it supersedes the resolution: the
  code only asks that no archive of the candidate has a Next-Gen header.
\<close>

theorem resolver_supersedes_with_unknown_version:
  "map_of (scan_single_directory_for_dlc ex_unknown_fs ''F4'' initial_dlc_info ''Fallout 4 DLC'')
      ''Automatron'' = Some ex_automatron_ng \<and>
   map_of (detect_dlc_in_both_games ex_unknown_fs ''F4'' ''VR'' []) ''Automatron'' =
     Some \<lparr>esm = ''DLCRobot.esm'', ba2_prefixes = [''DLCRobot''],
            found_in = Some ''Fallout 4 VR'',
            esm_path = Some (data_subdir ''VR'', ''DLCRobot.esm''),
            ba2_paths = [(data_subdir ''VR'', ''DLCRobot - Main.ba2''),
                         (data_subdir ''VR'', ''DLCRobot - Textures.ba2'')],
            is_next_gen = Some False\<rparr> \<and>
   map_option (\<lambda>h. version_classification_of (version h))
      (from_file ex_unknown_fs (data_subdir ''VR'', ''DLCRobot - Main.ba2'')) = Some (Unknown 9) \<and>
   from_file ex_unknown_fs (data_subdir ''VR'', ''DLCRobot - Textures.ba2'') = None \<and>
   \<not> candidate_compatible ex_unknown_fs
        [(data_subdir ''VR'', ''DLCRobot - Main.ba2''),
         (data_subdir ''VR'', ''DLCRobot - Textures.ba2'')]"
  by code_simp


text \<open>
  C4, amended: when a directory is scanned and the group is already resolved, the
  resolution is replaced exactly when the path is a directory that holds the \<^verbatim>\<open>.esm\<close> of
  the group, the previous resolution is Next-Gen and no archive of the group in the
  directory has a readable header with a Next-Gen version code; otherwise the entry is
  unchanged. A compatible candidate has no such archive, and so has a candidate with no
  archive at all, with archives of an unknown version or with unreadable headers. In
  particular an unresolved group that is Next-Gen in the directory scanned first and
  has no Next-Gen archive in the directory scanned second resolves to the second
  directory, and none of its archives there has a Next-Gen header.
\<close>

theorem resolver_tie_break:
  assumes "map_of dlc_info name = Some d"
  shows "(found_in d \<noteq> None \<longrightarrow>
            map_of (scan_single_directory_for_dlc fs dir dlc_info src) name =
              Some (if is_dir fs dir
                       \<and> esm_map (iterdir_files fs dir) (esm d) \<noteq> None
                       \<and> is_next_gen d = Some True
                       \<and> \<not> candidate_is_ng fs (iterdir_files fs dir) d
                    then d\<lparr>found_in := Some src, esm_path := Some (dir, esm d),
                           ba2_paths := candidate_ba2_paths (iterdir_files fs dir) d,
                           is_next_gen := Some False\<rparr>
                    else d)) \<and>
         (candidate_compatible fs (candidate_ba2_paths (iterdir_files fs dir) d) \<longrightarrow>
            \<not> candidate_is_ng fs (iterdir_files fs dir) d) \<and>
         (found_in d = None \<and> is_dir fs dir \<and> is_dir fs dir2
            \<and> esm_map (iterdir_files fs dir) (esm d) \<noteq> None
            \<and> candidate_is_ng fs (iterdir_files fs dir) d
            \<and> esm_map (iterdir_files fs dir2) (esm d) \<noteq> None
            \<and> \<not> candidate_is_ng fs (iterdir_files fs dir2) d \<longrightarrow>
            (\<exists>d'. map_of (scan_single_directory_for_dlc fs dir2
                       (scan_single_directory_for_dlc fs dir dlc_info src) src2) name = Some d'
                \<and> found_in d' = Some src2 \<and> esm_path d' = Some (dir2, esm d)
                \<and> is_next_gen d' = Some False
                \<and> ba2_paths d' = candidate_ba2_paths (iterdir_files fs dir2) d
                \<and> (\<forall>p\<in>set (ba2_paths d'). fst p = dir2 \<and> \<not> is_next_gen_header (from_file fs p))))"
proof (intro conjI impI)
  assume f: "found_in d \<noteq> None"
  show "map_of (scan_single_directory_for_dlc fs dir dlc_info src) name =
              Some (if is_dir fs dir
                       \<and> esm_map (iterdir_files fs dir) (esm d) \<noteq> None
                       \<and> is_next_gen d = Some True
                       \<and> \<not> candidate_is_ng fs (iterdir_files fs dir) d
                    then d\<lparr>found_in := Some src, esm_path := Some (dir, esm d),
                           ba2_paths := candidate_ba2_paths (iterdir_files fs dir) d,
                           is_next_gen := Some False\<rparr>
                    else d)"
  proof (cases "is_dir fs dir")
    case False
    with assms show ?thesis by (simp add: scan_not_dir)
  next
    case True
    with f assms show ?thesis
      by (auto simp add: scan_lookup scan_dlc_entry_def Let_def dest: esm_map_in_dir
          split: option.splits)
  qed
next
  assume "candidate_compatible fs (candidate_ba2_paths (iterdir_files fs dir) d)"
  then show "\<not> candidate_is_ng fs (iterdir_files fs dir) d"
    by (rule compatible_not_ng)
next
  let ?A = "iterdir_files fs dir" and ?B = "iterdir_files fs dir2"
  assume a: "found_in d = None \<and> is_dir fs dir \<and> is_dir fs dir2
            \<and> esm_map ?A (esm d) \<noteq> None \<and> candidate_is_ng fs ?A d
            \<and> esm_map ?B (esm d) \<noteq> None \<and> \<not> candidate_is_ng fs ?B d"
  define d1 where "d1 = d\<lparr>found_in := Some src, esm_path := esm_map ?A (esm d),
       ba2_paths := candidate_ba2_paths ?A d, is_next_gen := Some True\<rparr>"
  define d2 where "d2 = d\<lparr>found_in := Some src2, esm_path := Some (dir2, esm d),
       ba2_paths := candidate_ba2_paths ?B d, is_next_gen := Some False\<rparr>"
  from a have 1: "scan_dlc_entry fs ?A src d = d1"
    by (auto simp add: scan_dlc_entry_def d1_def Let_def)
  have same: "candidate_ba2_paths fls d1 = candidate_ba2_paths fls d"
    "candidate_is_ng fs fls d1 = candidate_is_ng fs fls d" "esm d1 = esm d" for fls
    by (simp_all add: d1_def candidate_ba2_paths_def candidate_is_ng_def)
  from a have eB: "esm_map ?B (esm d) = Some (dir2, esm d)"
    by (auto dest: esm_map_in_dir)
  have f1: "is_next_gen d1 = Some True" "found_in d1 = Some src"
    by (simp_all add: d1_def)
  have u: "d1\<lparr>found_in := Some src2, esm_path := Some (dir2, esm d),
       ba2_paths := candidate_ba2_paths ?B d, is_next_gen := Some False\<rparr> = d2"
    by (simp add: d1_def d2_def)
  from a have 2: "scan_dlc_entry fs ?B src2 d1 = d2"
    by (simp add: scan_dlc_entry_def same Let_def eB f1 u)
  have "map_of (scan_single_directory_for_dlc fs dir2
            (scan_single_directory_for_dlc fs dir dlc_info src) src2) name = Some d2"
    using assms a by (simp add: scan_lookup 1 2)
  moreover have "\<forall>p\<in>set (ba2_paths d2). fst p = dir2 \<and> \<not> is_next_gen_header (from_file fs p)"
    using a candidate_in_dir [of _ fs dir2 d] candidate_not_ng [of fs ?B d]
    by (auto simp add: d2_def)
  ultimately show "\<exists>d'. map_of (scan_single_directory_for_dlc fs dir2
                       (scan_single_directory_for_dlc fs dir dlc_info src) src2) name = Some d'
                \<and> found_in d' = Some src2 \<and> esm_path d' = Some (dir2, esm d)
                \<and> is_next_gen d' = Some False
                \<and> ba2_paths d' = candidate_ba2_paths ?B d
                \<and> (\<forall>p\<in>set (ba2_paths d'). fst p = dir2 \<and> \<not> is_next_gen_header (from_file fs p))"
    by (intro exI [of _ d2]) (simp add: d2_def)
qed


theorem resolver_tie_break_witness:
  "is_dir ex_games_fs ''F4'' \<and>
   map_of initial_dlc_info ''Automatron'' = Some (new_dlc ''DLCRobot.esm'' [''DLCRobot'']) \<and>
   found_in (new_dlc ''DLCRobot.esm'' [''DLCRobot'']) = None \<and>
   esm_map (iterdir_files ex_games_fs ''F4'') ''DLCRobot.esm'' \<noteq> None \<and>
   candidate_is_ng ex_games_fs (iterdir_files ex_games_fs ''F4'') (new_dlc ''DLCRobot.esm'' [''DLCRobot'']) \<and>
   esm_map (iterdir_files ex_games_fs (data_subdir ''F4'')) ''DLCRobot.esm'' \<noteq> None \<and>
   candidate_compatible ex_games_fs
     (candidate_ba2_paths (iterdir_files ex_games_fs (data_subdir ''F4'')) ex_automatron_ng) \<and>
   \<not> candidate_is_ng ex_games_fs (iterdir_files ex_games_fs (data_subdir ''F4'')) ex_automatron_ng \<and>
   \<not> candidate_is_ng ex_games_fs (iterdir_files ex_games_fs (data_subdir ''F4''))
        (new_dlc ''DLCRobot.esm'' [''DLCRobot'']) \<and>
   is_dir ex_games_fs (data_subdir ''F4'') \<and>
   map_of (scan_single_directory_for_dlc ex_games_fs ''F4'' initial_dlc_info ''Fallout 4 DLC'')
      ''Automatron'' = Some ex_automatron_ng \<and>
   found_in ex_automatron_ng \<noteq> None \<and>
   map_of (scan_single_directory_for_dlc ex_games_fs (data_subdir ''F4'')
            (scan_single_directory_for_dlc ex_games_fs ''F4'' initial_dlc_info ''Fallout 4 DLC'')
            ''Fallout 4 DLC'') ''Automatron'' =
     Some \<lparr>esm = ''DLCRobot.esm'', ba2_prefixes = [''DLCRobot''],
            found_in = Some ''Fallout 4 DLC'',
            esm_path = Some (data_subdir ''F4'', ''DLCRobot.esm''),
            ba2_paths = [(data_subdir ''F4'', ''DLCRobot - Main.ba2''),
                         (data_subdir ''F4'', ''DLCRobot - Textures.ba2'')],
            is_next_gen = Some False\<rparr> \<and>
   map_of (detect_dlc_in_both_games ex_games_fs ''F4'' [] []) ''Automatron'' =
     Some \<lparr>esm = ''DLCRobot.esm'', ba2_prefixes = [''DLCRobot''],
            found_in = Some ''Fallout 4 DLC'',
            esm_path = Some (data_subdir ''F4'', ''DLCRobot.esm''),
            ba2_paths = [(data_subdir ''F4'', ''DLCRobot - Main.ba2''),
                         (data_subdir ''F4'', ''DLCRobot - Textures.ba2'')],
            is_next_gen = Some False\<rparr>"
proof -
  let ?D = "data_subdir ''F4''"
  let ?i1 = "scan_single_directory_for_dlc ex_games_fs ''F4'' initial_dlc_info ''Fallout 4 DLC''"
  have p: "is_dir ex_games_fs ?D"
    by code_simp
  have m: "map_of ?i1 ''Automatron'' = Some ex_automatron_ng"
    by code_simp
  have e: "esm_map (iterdir_files ex_games_fs ?D) (esm ex_automatron_ng) \<noteq> None"
    by code_simp
  have k: "candidate_compatible ex_games_fs
     (candidate_ba2_paths (iterdir_files ex_games_fs ?D) ex_automatron_ng)"
    by code_simp
  have b: "candidate_ba2_paths (iterdir_files ex_games_fs ?D) ex_automatron_ng =
      [(?D, ''DLCRobot - Main.ba2''), (?D, ''DLCRobot - Textures.ba2'')]"
    by code_simp
  have d: "map_of (detect_dlc_in_both_games ex_games_fs ''F4'' [] []) ''Automatron'' =
      map_of (scan_single_directory_for_dlc ex_games_fs ?D ?i1 ''Fallout 4 DLC'') ''Automatron''"
    by code_simp
  have p0: "is_dir ex_games_fs ''F4''"
    by code_simp
  have m0: "map_of initial_dlc_info ''Automatron'' = Some (new_dlc ''DLCRobot.esm'' [''DLCRobot''])"
    by code_simp
  have h0: "found_in (new_dlc ''DLCRobot.esm'' [''DLCRobot'']) = None"
    "esm_map (iterdir_files ex_games_fs ''F4'') ''DLCRobot.esm'' \<noteq> None"
    "candidate_is_ng ex_games_fs (iterdir_files ex_games_fs ''F4'') (new_dlc ''DLCRobot.esm'' [''DLCRobot''])"
    "esm_map (iterdir_files ex_games_fs ?D) ''DLCRobot.esm'' \<noteq> None"
    "\<not> candidate_is_ng ex_games_fs (iterdir_files ex_games_fs ?D) (new_dlc ''DLCRobot.esm'' [''DLCRobot''])"
    by code_simp+
  from resolver_tie_break [OF m, of ex_games_fs ?D "''Fallout 4 DLC''" ?D "''Fallout 4 DLC''"]
    resolver_tie_break [OF m0, of ex_games_fs "''F4''" "''Fallout 4 DLC''" ?D "''Fallout 4 DLC''"]
    p m e k b d p0 m0 h0
  show ?thesis
    by (simp add: ex_automatron_ng_def)
qed
section \<open>ESM delta patcher: proofs\<close>

lemma lookup_delete:
  "lookup_file (remove_file fs p) q = (if q = p then None else lookup_file fs q)"
  by (simp add: lookup_file_def remove_file_def delete_conv')

lemma lookup_store_file: "lookup_file (store_file fs q f) p = (if p = q then Some f else lookup_file fs p)"
  by (rule lookup_store)

lemmas esm_flow = patch_fallout4_esm_def patch_try_block_def handle_exception_def handle_timeout_def
  after_run_def restore_backup_def cleanup_temp_def os_remove_def os_rename_def os_exists_def
  shutil_copy2_def subprocess_run_def write_output_def and_then_def xdelta_path_def

text \<open>
  When the backup copy completes, no stale \<^verbatim>\<open>.backup\<close> or \<^verbatim>\<open>.patched\<close> file was
  there before, the target is not read-only and none of the three files is locked,
  every path through \<^verbatim>\<open>patch_fallout4_esm\<close> returns without
  raising and leaves neither file behind, and every path that returns \<^verbatim>\<open>False\<close>
  leaves the target as it was: whatever the tool's exit code and output, on a timeout,
  and when the process cannot be started.
\<close>

lemma patch_failure_restores_target:
  assumes f: "lookup_file fs (d, ''Fallout4.esm'') = Some f"
    and nb: "lookup_file fs (d, ''Fallout4.esm.backup'') = None"
    and nt: "lookup_file fs (d, ''Fallout4.esm.patched'') = None"
    and w: "writable f"
    and l: "\<not> locked (d, ''Fallout4.esm'')" "\<not> locked (d, ''Fallout4.esm.backup'')"
      "\<not> locked (d, ''Fallout4.esm.patched'')"
  shows "case patch_fallout4_esm self locked CopyOk run_oc fs d of
           Raise e fs' \<Rightarrow> False
         | Return ok fs' \<Rightarrow>
             lookup_file fs' (d, ''Fallout4.esm.backup'') = None \<and>
             lookup_file fs' (d, ''Fallout4.esm.patched'') = None \<and>
             (\<not> ok \<longrightarrow> lookup_file fs' (d, ''Fallout4.esm'') = Some f)"
proof (cases run_oc)
  case (Exited rc out)
  then show ?thesis
    using assms
    by (cases out) (simp_all add: esm_flow Let_def lookup_delete lookup_store_file split: option.split)
next
  case (TimedOut out)
  then show ?thesis
    using assms
    by (cases out) (simp_all add: esm_flow Let_def lookup_delete lookup_store_file split: option.split)
next
  case (RunRaises e)
  then show ?thesis
    using assms
    by (simp add: esm_flow Let_def lookup_delete lookup_store_file split: option.split)
qed

text \<open>
  A read-only target is copied with its attribute, and neither the target nor the backup
  is removed by the restore block: \<^verbatim>\<open>os.remove\<close> raises \<^verbatim>\<open>PermissionError\<close>. After a
  timeout the error leaves the function; after a non-zero exit code it is caught, the
  function returns \<^verbatim>\<open>False\<close>, and the backup file stays behind.
\<close>

lemma patch_read_only_target:
  assumes f: "lookup_file fs (d, ''Fallout4.esm'') = Some f"
    and m: "map_of patch_mappings (length (content f)) = Some sel"
    and a: "os_exists fs (assets_dir self, fst sel)" "os_exists fs (xdelta_path self)"
    and nt: "lookup_file fs (d, ''Fallout4.esm.patched'') = None"
    and w: "\<not> writable f"
  shows "patch_fallout4_esm self locked CopyOk (TimedOut None) fs d =
           Raise PermissionError (store_file fs (d, ''Fallout4.esm.backup'') f)"
    and "rc \<noteq> 0 \<Longrightarrow> patch_fallout4_esm self locked CopyOk (Exited rc None) fs d =
           Return False (store_file fs (d, ''Fallout4.esm.backup'') f)"
  using assms
  by (simp_all add: esm_flow Let_def lookup_delete lookup_store_file)

text \<open>
  When the backup copy raises before the backup file is created, the file system is
  unchanged, but the handler reads the unassigned \<^verbatim>\<open>temp_output\<close> and the function
  raises instead of returning \<^verbatim>\<open>False\<close>.
\<close>

lemma patch_backup_not_created:
  assumes "lookup_file fs (d, ''Fallout4.esm'') = Some f"
    and "map_of patch_mappings (length (content f)) = Some sel"
    and "os_exists fs (assets_dir self, fst sel)" and "os_exists fs (xdelta_path self)"
    and "lookup_file fs (d, ''Fallout4.esm.backup'') = None"
    and "e \<noteq> TimeoutExpired"
  shows "patch_fallout4_esm self locked (CopyFailsBeforeCreate e) run_oc fs d = Raise UnboundLocalError fs"
  using assms
  by (simp add: patch_fallout4_esm_def patch_try_block_def shutil_copy2_def handle_exception_def
      restore_backup_def os_exists_def Let_def)

text \<open>
  C2 asks that on every failure path, an exception included, the target is afterwards
  byte-identical to its content before the call and never truncated. The source file
  has 330,777,465 bytes, a known key, the patch and the tool are present, and no file
  is locked.
  \<^verbatim>\<open>shutil.copy2\<close> raises \<^verbatim>\<open>OSError\<close> after 1000 bytes of the backup have been
  written. The \<^verbatim>\<open>except Exception\<close> handler finds the incomplete backup, removes the
  target and renames the backup over it: the target is left with 1000 bytes, and the
  handler then raises \<^verbatim>\<open>UnboundLocalError\<close> on \<^verbatim>\<open>temp_output\<close>.
\<close>

theorem patch_partial_backup_truncates_target:
  "patch_fallout4_esm \<lparr>assets_dir = ''assets''\<rparr> (\<lambda>p. False) (CopyFailsAfter 1000 OSError) (Exited 0 None)
      ex_mod_fs ''mod'' =
     Raise UnboundLocalError
       \<lparr>dirs = [''mod'', ''assets''],
        files = [((''assets'', ''xdelta3.exe''), \<lparr>content = [1], readable = True, writable = True\<rparr>),
                 ((''assets'', ''fallout4_323025.xdelta''), \<lparr>content = [2], readable = True, writable = True\<rparr>),
                 ((''assets'', ''fallout4_322806.xdelta''), \<lparr>content = [3], readable = True, writable = True\<rparr>),
                 ((''mod'', ''Fallout4.esm''), \<lparr>content = replicate 1000 7, readable = True, writable = True\<rparr>)]\<rparr>
   \<and> lookup_file ex_mod_fs (''mod'', ''Fallout4.esm'') =
       Some \<lparr>content = replicate 330777465 7, readable = True, writable = True\<rparr>"
  by (simp add: esm_flow lookup_file_def store_file_def remove_file_def patch_mappings_def
      ex_mod_fs_def ex_esm_def Let_def)
section \<open>Tree copier: the failure threshold in floating point\<close>

text \<open>
  Rounding to 53 bits moves a number by at most half a unit in the last place, and never
  across a number that is itself representable.
\<close>

lemma bit_length_bounds:
  "0 < n \<Longrightarrow> 2 ^ (bit_length n - 1) \<le> n \<and> n < 2 ^ bit_length n"
proof (induction n rule: bit_length.induct)
  case (1 n)
  show ?case
  proof (cases "n div 2 = 0")
    case True
    with "1.prems" have "n = 1" by auto
    then show ?thesis by (simp add: bit_length.simps)
  next
    case False
    with "1.IH" "1.prems" have ih: "2 ^ (bit_length (n div 2) - 1) \<le> n div 2" "n div 2 < 2 ^ bit_length (n div 2)"
      by auto
    from False have pos: "0 < bit_length (n div 2)" by (simp add: bit_length.simps)
    have bl: "bit_length n = Suc (bit_length (n div 2))"
      using "1.prems" by (subst bit_length.simps) simp
    have "2 ^ (bit_length n - 1) = 2 * 2 ^ (bit_length (n div 2) - 1)"
      using pos bl by (cases "bit_length (n div 2)") simp_all
    also have "\<dots> \<le> 2 * (n div 2)" using ih(1) by simp
    also have "\<dots> \<le> n" by simp
    finally have a: "2 ^ (bit_length n - 1) \<le> n" .
    have "n < 2 * (n div 2) + 2" by presburger
    also have "\<dots> \<le> 2 * 2 ^ bit_length (n div 2)" using ih(2) by simp
    finally have "n < 2 ^ bit_length n" using bl by simp
    with a show ?thesis by simp
  qed
qed

lemma bit_length_le_iff: "bit_length n \<le> k \<longleftrightarrow> n < 2 ^ k"
proof (cases "n = 0")
  case True
  then show ?thesis by (simp add: bit_length.simps)
next
  case False
  then have b: "2 ^ (bit_length n - 1) \<le> n" "n < 2 ^ bit_length n"
    using bit_length_bounds [of n] by simp_all
  show ?thesis
  proof
    assume "bit_length n \<le> k"
    then have "(2::nat) ^ bit_length n \<le> 2 ^ k" by (simp add: power_increasing)
    with b(2) show "n < 2 ^ k" by (rule less_le_trans)
  next
    assume "n < 2 ^ k"
    with b(1) have "(2::nat) ^ (bit_length n - 1) < 2 ^ k" by (rule le_less_trans)
    then have "bit_length n - 1 < k" by (simp add: power_strict_increasing_iff)
    then show "bit_length n \<le> k" by simp
  qed
qed

lemma round53_small: "n < 2 ^ 53 \<Longrightarrow> round53 n = n"
  using bit_length_le_iff [of n 53] by (simp add: round53_def)

lemma round53_upper: "2 ^ 53 * round53 n \<le> n * (2 ^ 53 + 1)"
proof (cases "bit_length n \<le> 53")
  case True
  then show ?thesis by (simp add: round53_def)
next
  case False
  define s where "s = bit_length n - 53"
  define q where "q = n div 2 ^ s"
  define r where "r = n mod 2 ^ s"
  from False have s: "0 < s" "bit_length n = s + 53" by (simp_all add: s_def)
  from False have "0 < n" by (auto simp add: bit_length.simps intro: gr0I)
  then have "2 ^ (bit_length n - 1) \<le> n" using bit_length_bounds by simp
  then have big: "2 ^ (s + 52) \<le> n" using s by (simp add: add.commute)
  have n: "n = q * 2 ^ s + r" unfolding q_def r_def by (rule div_mult_mod_eq [symmetric])
  have half: "(2::nat) ^ s = 2 * 2 ^ (s - 1)" using s(1) by (cases s) simp_all
  have rnd: "round53 n = (if r > 2 ^ (s - 1) \<or> (r = 2 ^ (s - 1) \<and> odd q) then q + 1 else q) * 2 ^ s"
    using False by (simp add: round53_def Let_def s_def q_def r_def)
  have "round53 n \<le> n + 2 ^ (s - 1)"
  proof (cases "r > 2 ^ (s - 1) \<or> (r = 2 ^ (s - 1) \<and> odd q)")
    case True
    then have "2 ^ (s - 1) \<le> r" by auto
    moreover from True rnd have "round53 n = q * 2 ^ s + 2 ^ s" by (simp add: algebra_simps)
    ultimately show ?thesis using n half by linarith
  next
    case False
    with rnd have "round53 n = q * 2 ^ s" by simp
    with n show ?thesis by linarith
  qed
  then have "2 ^ 53 * round53 n \<le> 2 ^ 53 * (n + 2 ^ (s - 1))" by simp
  also have "\<dots> = 2 ^ 53 * n + 2 ^ (s + 52)"
    using s(1) by (cases s) (simp_all add: algebra_simps power_add)
  also have "\<dots> \<le> 2 ^ 53 * n + n" using big by simp
  finally show ?thesis by (simp add: algebra_simps)
qed

lemma round53_lower:
  assumes "a \<le> n" and "n < 2 ^ (53 + k)" and "2 ^ k dvd a"
  shows "a \<le> round53 n"
proof (cases "bit_length n \<le> 53")
  case True
  with assms(1) show ?thesis by (simp add: round53_def)
next
  case False
  define s where "s = bit_length n - 53"
  define q where "q = n div 2 ^ s"
  from assms(2) have "bit_length n \<le> 53 + k" by (simp add: bit_length_le_iff)
  then have "s \<le> k" by (simp add: s_def)
  then have "(2::nat) ^ s dvd 2 ^ k" by (simp add: le_imp_power_dvd)
  then have "2 ^ s dvd a" using assms(3) by (rule dvd_trans)
  then obtain b where b: "a = b * 2 ^ s" by (auto simp add: dvd_def mult.commute)
  with assms(1) have "b \<le> q" unfolding q_def
    by (metis div_le_mono nonzero_mult_div_cancel_right power_eq_0_iff zero_neq_numeral)
  have "round53 n = (if n mod 2 ^ s > 2 ^ (s - 1) \<or> (n mod 2 ^ s = 2 ^ (s - 1) \<and> odd q) then q + 1 else q) * 2 ^ s"
    using False by (simp add: round53_def Let_def s_def q_def)
  then have "q * 2 ^ s \<le> round53 n" by simp
  moreover have "a \<le> q * 2 ^ s" using b \<open>b \<le> q\<close> by simp
  ultimately show ?thesis by simp
qed


lemma exceeds_tenth_iff:
  assumes "m < 2 ^ 52"
  shows "exceeds_tenth n m \<longleftrightarrow> m < 10 * n"
proof -
  define C :: nat where "C = 3602879701896397"
  define K where "K = m * C"
  have tenC: "10 * C = 2 ^ 55 + 2" by (simp add: C_def)
  from assms have m53: "m < 2 ^ 53" by simp
  have ex: "exceeds_tenth n m \<longleftrightarrow> round53 K < n * 2 ^ 55"
    using round53_small [OF m53] by (simp add: exceeds_tenth_def K_def C_def)
  have Kbound: "K < 2 ^ (53 + 55)"
  proof -
    have "C < 2 ^ 52" by (simp add: C_def)
    with assms have "m * C < 2 ^ 52 * 2 ^ 52" by (intro mult_strict_mono) simp_all
    then show ?thesis by (simp add: K_def)
  qed
  have tenK: "10 * K = m * (2 ^ 55 + 2)"
    using tenC by (simp add: K_def mult.assoc mult.left_commute)
  show ?thesis
  proof (cases "m < 10 * n")
    case True
    then have le: "m + 1 \<le> 10 * n" by simp
    have "10 * (2 ^ 53 * round53 K) \<le> 10 * (K * (2 ^ 53 + 1))"
      using round53_upper [of K] by simp
    also have "\<dots> = m * ((2 ^ 55 + 2) * (2 ^ 53 + 1))"
      using tenK by (simp add: algebra_simps)
    also have "\<dots> = m * 2 ^ 108 + m * (2 ^ 55 + 2 ^ 54 + 2)"
      by (simp add: algebra_simps)
    also have "\<dots> < m * 2 ^ 108 + 2 ^ 108"
    proof -
      have "m * (2 ^ 55 + 2 ^ 54 + 2) < 2 ^ 52 * (2 ^ 55 + 2 ^ 54 + 2)"
        using assms by simp
      also have "\<dots> \<le> (2::nat) ^ 108" by simp
      finally show ?thesis by simp
    qed
    also have "\<dots> = (m + 1) * 2 ^ 108" by (simp add: algebra_simps)
    also have "\<dots> \<le> (10 * n) * 2 ^ 108" using le by (intro mult_right_mono) simp_all
    also have "\<dots> = 10 * (2 ^ 53 * (n * 2 ^ 55))" by simp
    finally have "round53 K < n * 2 ^ 55" by simp
    with True ex show ?thesis by simp
  next
    case False
    then have "10 * n \<le> m" by simp
    then have "10 * n * C \<le> m * C" by (intro mult_right_mono) simp_all
    then have "n * (2 ^ 55 + 2) \<le> K" using tenC by (simp add: K_def mult.assoc mult.left_commute mult.commute)
    then have a: "n * 2 ^ 55 \<le> K" by (simp add: algebra_simps)
    have "n * 2 ^ 55 \<le> round53 K"
      using a Kbound by (rule round53_lower) simp
    with False ex show ?thesis by simp
  qed
qed

section \<open>Tree copier: proofs\<close>

lemma ex_manifest:
  "files_to_copy_of ex_copy_fs ex_tree ''src'' ''dst'' None None =
     [((''src'', ''a0''), (''dst'', ''a0''), 1), ((''src'', ''a1''), (''dst'', ''a1''), 1),
      ((''src'', ''a2''), (''dst'', ''a2''), 1), ((''src'', ''a3''), (''dst'', ''a3''), 1),
      ((''src'', ''a4''), (''dst'', ''a4''), 1), ((''src'', ''a5''), (''dst'', ''a5''), 1),
      ((''src'', ''a6''), (''dst'', ''a6''), 1), ((''src'', ''a7''), (''dst'', ''a7''), 1),
      ((''src'', ''a8''), (''dst'', ''a8''), 1),
      ((os_path_join ''src'' ''Textures'', ''t1.dds''), (os_path_join ''dst'' ''Textures'', ''t1.dds''), 2)]"
  by code_simp


lemma chunk_size_pos: "0 < chunk_size"
  by (simp add: chunk_size_def)


lemma copy_loop_None: "copy_loop None data = (False, data)"
proof (induction "length data" arbitrary: data rule: less_induct)
  case less
  show ?case
  proof (cases "data = []")
    case True
    then show ?thesis by (subst copy_loop.simps) simp
  next
    case False
    with chunk_size_pos have ne: "take chunk_size data \<noteq> []" by (simp add: take_eq_Nil)
    from False chunk_size_pos have "length (drop chunk_size data) < length data" by simp
    then have "copy_loop None (drop chunk_size data) = (False, drop chunk_size data)"
      by (rule less)
    with ne show ?thesis by (subst copy_loop.simps) (simp add: Let_def)
  qed
qed

lemma copy_loop_Some0: "copy_loop (Some 0) data = (True, [])"
  by (subst copy_loop.simps) simp


lemma lookup_prepared:
  "lookup_file (prepared fs d) p =
     (if p = d then map_option (\<lambda>f. f\<lparr>writable := True\<rparr>) (lookup_file fs d) else lookup_file fs p)"
  by (auto simp add: prepared_def os_exists_def remove_readonly_and_overwrite_def lookup_store_file
      split: option.splits)



















lemmas copy_eval = run_tasks.simps copy_single_file_safe_def copy_attempt_def copy_loop_None
  copy_loop_Some0 os_exists_def lookup_file_def store_file_def remove_readonly_and_overwrite_def
  Let_def sort_key_def os_path_join_def copy_directory_parallel_def exceeds_tenth_iff total_size_def

text \<open>
  \<^verbatim>\<open>str.lower()\<close> on a name with a Latin-1 capital: the code point 201 (capital E
  with acute accent) becomes 233, so an excluded-file entry written with the capital
  matches the file written with the small letter.
\<close>

lemma lower_latin1_name:
  "lower [CHR 0xC9, CHR ''.'', CHR ''T'', CHR ''X'', CHR ''T''] =
     [CHR 0xE9, CHR ''.'', CHR ''t'', CHR ''x'', CHR ''t'']"
  by code_simp

text \<open>
  A task that starts with the cancellation flag set raises \<^verbatim>\<open>InterruptedError\<close>; the
  loop over the completed futures records it in the failure list and goes on with the
  remaining tasks.
\<close>

lemma cancelled_task_is_recorded:
  assumes "cancel_requested env (fst fi)"
  shows "run_tasks env st fc (fi # rest) =
           run_tasks env (st\<lparr>failed_files := failed_files st @ [(fst fi, InterruptedError)]\<rparr>) fc rest"
  using assms by (simp add: copy_single_file_safe_def)

text \<open>
  \<^verbatim>\<open>copy_directory_parallel\<close> returns \<^verbatim>\<open>True\<close> or raises the aggregate exception; it
  never raises \<^verbatim>\<open>InterruptedError\<close>.
\<close>

lemma copy_directory_parallel_results:
  "fst (copy_directory_parallel env fs tree src_dir dest_dir xds xfs) = Inr True \<or>
   (\<exists>n m. fst (copy_directory_parallel env fs tree src_dir dest_dir xds xfs) = Inl (TooManyCopyFailures n m))"
  by (simp add: copy_directory_parallel_def Let_def split: prod.split)

lemma copy_directory_parallel_never_interrupted:
  "fst (copy_directory_parallel env fs tree src_dir dest_dir xds xfs) \<noteq> Inl InterruptedError"
  using copy_directory_parallel_results [of env fs tree src_dir dest_dir xds xfs] by auto

text \<open>
  The walk tests the excluded directory names as substrings of the lower-cased path of
  the directory: with the default list, which contains \<^verbatim>\<open>source\<close>, the files of a
  directory \<^verbatim>\<open>Resources\<close> are skipped although no excluded name equals its name.
\<close>

lemma walk_skips_substring_match:
  "\<not> list_ex (\<lambda>d. lower d = ''resources'') default_exclude_dirs \<and>
   files_to_copy_of ex_resources_fs ex_resources_tree ''src'' ''dst'' None None =
     [((''src'', ''a0''), (''dst'', ''a0''), 1)]"
  by code_simp

section \<open>Tree copier: the claims\<close>

text \<open>
  C1: for a non-empty manifest of \<open>M\<close> files of which \<open>N\<close> are in the failure list when
  all tasks are done, \<^verbatim>\<open>copy_directory_parallel\<close> raises the aggregate exception when
  \<open>N > M / 10\<close> and returns \<^verbatim>\<open>True\<close> otherwise, also when \<open>N > 0\<close>; the failure list
  is part of the final state. The comparison is the one of the source, in double
  precision, which agrees with the exact one for every manifest of fewer than \<open>2^52\<close>
  files.
\<close>

theorem failure_ratio_threshold:
  assumes "files_to_copy_of fs tree src_dir dest_dir xds xfs = manifest"
    and "manifest \<noteq> []" and "length manifest < 2 ^ 52"
    and "run_tasks env \<lparr>cfs = fs, copied_counter = 0, failed_files = []\<rparr> 0
           (sort_key (\<lambda>(s, d, sz). sz) manifest) = (st, fc)"
  shows "copy_directory_parallel env fs tree src_dir dest_dir xds xfs =
           (if length manifest < 10 * length (failed_files st)
            then Inl (TooManyCopyFailures (length (failed_files st)) (length manifest))
            else Inr True, st, fc)"
  using assms
  by (simp add: copy_directory_parallel_def Let_def exceeds_tenth_iff)

theorem failure_ratio_threshold_witness:
  "length (files_to_copy_of ex_copy_fs ex_tree ''src'' ''dst'' None None) = 10 \<and>
   fst (copy_directory_parallel ex_env_one_fault ex_copy_fs ex_tree ''src'' ''dst'' None None) = Inr True \<and>
   failed_files (fst (snd (copy_directory_parallel ex_env_one_fault ex_copy_fs ex_tree ''src'' ''dst'' None None)))
     = [((''src'', ''a3''), OSError)] \<and>
   fst (copy_directory_parallel ex_env_two_faults ex_copy_fs ex_tree ''src'' ''dst'' None None)
     = Inl (TooManyCopyFailures 2 10)"
proof -
  let ?m = "files_to_copy_of ex_copy_fs ex_tree ''src'' ''dst'' None None"
  have len: "length ?m = 10" by (simp add: ex_manifest)
  then have ne: "?m \<noteq> []" and small: "length ?m < 2 ^ 52" by auto
  obtain st1 fc1 where r1: "run_tasks ex_env_one_fault \<lparr>cfs = ex_copy_fs, copied_counter = 0, failed_files = []\<rparr> 0
           (sort_key (\<lambda>(s, d, sz). sz) ?m) = (st1, fc1)" by force
  obtain st2 fc2 where r2: "run_tasks ex_env_two_faults \<lparr>cfs = ex_copy_fs, copied_counter = 0, failed_files = []\<rparr> 0
           (sort_key (\<lambda>(s, d, sz). sz) ?m) = (st2, fc2)" by force
  from r1 have f1: "failed_files st1 = [((''src'', ''a3''), OSError)]"
    by (simp add: ex_manifest) (auto simp add: copy_eval ex_env_one_fault_def ex_copy_fs_def)
  from r2 have f2: "failed_files st2 = [((''src'', ''a3''), OSError), ((''src'', ''a4''), OSError)]"
    by (simp add: ex_manifest) (auto simp add: copy_eval ex_env_two_faults_def ex_copy_fs_def)
  from failure_ratio_threshold [OF refl ne small r1] failure_ratio_threshold [OF refl ne small r2]
    len f1 f2
  show ?thesis by simp
qed

text \<open>
  C8 asks that a cancellation seen at the start of a task ends the whole copy. The
  manifest has ten files and the last task finds the flag set: its
  \<^verbatim>\<open>InterruptedError\<close> is caught by the loop over the completed futures and recorded
  as the failure of that file, the other nine files are copied, and, one failure in ten
  being within the tolerance, the copy returns \<^verbatim>\<open>True\<close>.
\<close>

theorem cancellation_recorded_as_failure:
  "cancel_requested ex_env_cancel_last (os_path_join ''src'' ''Textures'', ''t1.dds'') \<and>
   fst (copy_directory_parallel ex_env_cancel_last ex_copy_fs ex_tree ''src'' ''dst'' None None) = Inr True \<and>
   failed_files (fst (snd (copy_directory_parallel ex_env_cancel_last ex_copy_fs ex_tree ''src'' ''dst'' None None)))
     = [((os_path_join ''src'' ''Textures'', ''t1.dds''), InterruptedError)] \<and>
   snd (snd (copy_directory_parallel ex_env_cancel_last ex_copy_fs ex_tree ''src'' ''dst'' None None)) = 9"
  by (simp add: copy_directory_parallel_def ex_manifest)
     (simp add: copy_eval ex_env_cancel_last_def ex_copy_fs_def)




text \<open>
  C7 as it is stated fails for the parallel copier: the first attempt on \<^verbatim>\<open>a3\<close>
  raises a permission error and a second attempt would succeed, but the task records the
  failure and the destination file is not created.
\<close>

theorem no_retry_in_parallel_copier:
  "\<not> cancel_requested ex_env_permission (''src'', ''a3'') \<and>
   fault_at ex_env_permission (''src'', ''a3'') 0 = FailOpen PermissionError \<and>
   fault_at ex_env_permission (''src'', ''a3'') 1 = NoFault \<and>
   copy_single_file_safe ex_env_permission ex_state0 ((''src'', ''a3''), (''dst'', ''a3''), 1) =
     (Inr (False, (''src'', ''a3''), Some PermissionError),
      ex_state0\<lparr>failed_files := [((''src'', ''a3''), PermissionError)]\<rparr>) \<and>
   lookup_file (cfs (ex_state0\<lparr>failed_files := [((''src'', ''a3''), PermissionError)]\<rparr>)) (''dst'', ''a3'') = None"
  by (simp add: ex_env_permission_def ex_state0_def ex_copy_fs_def copy_single_file_safe_def
      copy_attempt_def os_exists_def lookup_file_def os_path_join_def)

text \<open>
  C7, amended: in the parallel copier every exception of a task's copy, a permission
  error included, is recorded as a failure of that file without another attempt, and
  the batch goes on with the remaining files; when opening the files fails, the
  destination is as it was apart from its read-only attribute, which is cleared before
  the copy. The single retry after clearing the read-only attribute is what the
  sequential copier does on a permission error of its first copy: the outcome of the
  second copy decides, and the loop continues either way.
\<close>

theorem copy_failure_handling:
  "(\<not> cancel_requested env src \<and> copy_attempt (fault_at env src 0) st (src, dest, sz) = (Some e, st1) \<longrightarrow>
      copy_single_file_safe env st (src, dest, sz) =
        (Inr (False, src, Some e), st1\<lparr>failed_files := failed_files st1 @ [(src, e)]\<rparr>) \<and>
      run_tasks env st fc ((src, dest, sz) # rest) =
        run_tasks env (st1\<lparr>failed_files := failed_files st1 @ [(src, e)]\<rparr>) fc rest) \<and>
   copy_attempt (FailOpen e) st (src, dest, sz) = (Some e, st\<lparr>cfs := prepared (cfs st) dest\<rparr>) \<and>
   (copy2_at senv src 0 = CopyFailsBeforeCreate PermissionError
      \<and> lookup_file (sfs sst) src \<noteq> None \<and> src \<noteq> dest \<longrightarrow>
      copy_with_retry senv sst (src, dest, sz) =
        (case shutil_copy2 (copy2_at senv src 1)
                (remove_readonly_and_overwrite (prepared (sfs sst) dest) dest) src dest of
           Return u fs4 \<Rightarrow>
             (None, sst\<lparr>sfs := fs4, copied_size := copied_size sst + sz,
                        files_copied := Suc (files_copied sst)\<rparr>)
         | Raise retry_error fs4 \<Rightarrow> (None, sst\<lparr>sfs := fs4\<rparr>)))"
proof (intro conjI impI)
  assume a: "\<not> cancel_requested env src \<and> copy_attempt (fault_at env src 0) st (src, dest, sz) = (Some e, st1)"
  then show s: "copy_single_file_safe env st (src, dest, sz) =
        (Inr (False, src, Some e), st1\<lparr>failed_files := failed_files st1 @ [(src, e)]\<rparr>)"
    by (simp add: copy_single_file_safe_def)
  then show "run_tasks env st fc ((src, dest, sz) # rest) =
        run_tasks env (st1\<lparr>failed_files := failed_files st1 @ [(src, e)]\<rparr>) fc rest"
    by simp
next
  show "copy_attempt (FailOpen e) st (src, dest, sz) = (Some e, st\<lparr>cfs := prepared (cfs st) dest\<rparr>)"
    by (simp add: copy_attempt_def prepared_def)
next
  assume a: "copy2_at senv src 0 = CopyFailsBeforeCreate PermissionError
      \<and> lookup_file (sfs sst) src \<noteq> None \<and> src \<noteq> dest"
  then obtain f where f: "lookup_file (sfs sst) src = Some f" and sd: "src \<noteq> dest"
    and c: "copy2_at senv src 0 = CopyFailsBeforeCreate PermissionError" by auto
  from f sd have "lookup_file (prepared (sfs sst) dest) src = Some f"
    by (simp add: lookup_prepared)
  with c have "shutil_copy2 (copy2_at senv src 0) (prepared (sfs sst) dest) src dest =
      Raise PermissionError (prepared (sfs sst) dest)"
    by (simp add: shutil_copy2_def)
  then show "copy_with_retry senv sst (src, dest, sz) =
        (case shutil_copy2 (copy2_at senv src 1)
                (remove_readonly_and_overwrite (prepared (sfs sst) dest) dest) src dest of
           Return u fs4 \<Rightarrow>
             (None, sst\<lparr>sfs := fs4, copied_size := copied_size sst + sz,
                        files_copied := Suc (files_copied sst)\<rparr>)
         | Raise retry_error fs4 \<Rightarrow> (None, sst\<lparr>sfs := fs4\<rparr>))"
    by (simp add: copy_with_retry_def prepared_def [symmetric] Let_def)
qed

theorem copy_failure_handling_witness:
  "\<not> cancel_requested ex_env_permission (''src'', ''a3'') \<and>
   copy_attempt (fault_at ex_env_permission (''src'', ''a3'') 0) ex_state0 ((''src'', ''a3''), (''dst'', ''a3''), 1)
     = (Some PermissionError, ex_state0) \<and>
   copy_single_file_safe ex_env_permission ex_state0 ((''src'', ''a3''), (''dst'', ''a3''), 1) =
     (Inr (False, (''src'', ''a3''), Some PermissionError),
      ex_state0\<lparr>failed_files := [((''src'', ''a3''), PermissionError)]\<rparr>) \<and>
   copy2_at ex_seq_env (''src'', ''a3'') 0 = CopyFailsBeforeCreate PermissionError \<and>
   lookup_file (sfs ex_seq_state0) (''src'', ''a3'') \<noteq> None \<and>
   lookup_file (sfs (snd (copy_with_retry ex_seq_env ex_seq_state0 ((''src'', ''a3''), (''dst'', ''a3''), 1))))
      (''dst'', ''a3'') = Some \<lparr>content = [4], readable = True, writable = True\<rparr> \<and>
   files_copied (snd (copy_with_retry ex_seq_env ex_seq_state0 ((''src'', ''a3''), (''dst'', ''a3''), 1))) = 1"
proof -
  have nc: "\<not> cancel_requested ex_env_permission (''src'', ''a3'')"
    by (simp add: ex_env_permission_def)
  have ca: "copy_attempt (fault_at ex_env_permission (''src'', ''a3'') 0) ex_state0
      ((''src'', ''a3''), (''dst'', ''a3''), 1) = (Some PermissionError, ex_state0)"
    by (simp add: ex_env_permission_def ex_state0_def ex_copy_fs_def copy_attempt_def os_exists_def
        lookup_file_def os_path_join_def)
  have c2: "copy2_at ex_seq_env (''src'', ''a3'') 0 = CopyFailsBeforeCreate PermissionError"
    "copy2_at ex_seq_env (''src'', ''a3'') 1 = CopyOk"
    by (simp_all add: ex_seq_env_def)
  have lk: "lookup_file (sfs ex_seq_state0) (''src'', ''a3'') = Some \<lparr>content = [4], readable = True, writable = True\<rparr>"
    by (simp add: ex_seq_state0_def ex_copy_fs_def lookup_file_def)
  have pr: "remove_readonly_and_overwrite (prepared (sfs ex_seq_state0) (''dst'', ''a3'')) (''dst'', ''a3'')
      = ex_copy_fs"
    by (simp add: ex_seq_state0_def ex_copy_fs_def prepared_def os_exists_def lookup_file_def
        remove_readonly_and_overwrite_def os_path_join_def)
  have cp: "shutil_copy2 CopyOk ex_copy_fs (''src'', ''a3'') (''dst'', ''a3'') =
      Return () (store_file ex_copy_fs (''dst'', ''a3'') \<lparr>content = [4], readable = True, writable = True\<rparr>)"
    using lk by (simp add: shutil_copy2_def ex_seq_state0_def)
  from copy_failure_handling [of ex_env_permission "(''src'', ''a3'')" ex_state0 "(''dst'', ''a3'')" 1
      PermissionError ex_state0 0 "[]" ex_seq_env ex_seq_state0]
    nc ca c2 lk pr cp
  show ?thesis
    by (simp add: ex_state0_def lookup_store_file) (simp add: ex_seq_state0_def)
qed

end
